theory Spec2Isabelle
  imports Complex_Main
begin

section \<open>Python values used by the agent\<close>

text \<open>
  The agent (\<^verbatim>\<open>src/lenovo-agent/agent.py\<close>) is a Python program. A Python \<^verbatim>\<open>str\<close>
  is a sequence of Unicode code points, and \<^verbatim>\<open>len\<close> and slicing count code points, so a
  \<^verbatim>\<open>str\<close> is modelled as a list of code points (natural numbers below \<open>0x110000\<close>).
  \<^verbatim>\<open>bytes\<close> are lists of numbers below 256. ASCII literals of the source are written
  with \<open>ascii\<close>.
\<close>

type_synonym pystr = "nat list"

type_synonym pybytes = "nat list"

definition ascii :: "string \<Rightarrow> pystr" where
  "ascii s = map of_char s"

text \<open>
  Exceptions are values. Only the exception classes that the modelled calls can raise are
  listed; \<open>HTTPException\<close> carries its status code.
\<close>

datatype py_exn =
    TimeoutExpired
  | FileNotFoundError
  | NotADirectoryError
  | FileExistsError
  | IsADirectoryError
  | PermissionError
  | OSError
  | ValueError
  | TypeError
  | AttributeError
  | JSONDecodeError
  | UnicodeEncodeError
  | UnicodeDecodeError
  | RuntimeError
  | WebSocketDisconnect
  | HTTPException nat

text \<open>
  \<^verbatim>\<open>s[-n:]\<close> for a positive \<open>n\<close>: the slice starts at \<open>max (len s - n) 0\<close>, so it is the whole
  of \<open>s\<close> when \<open>s\<close> is not longer than \<open>n\<close> (the subtraction on \<open>nat\<close> stops at 0).
\<close>

definition py_last :: "nat \<Rightarrow> 'a list \<Rightarrow> 'a list" where
  "py_last n s = drop (length s - n) s"

text \<open>
  A Python \<^verbatim>\<open>float\<close> is an IEEE double, modelled by the real number it stands for. An
  arithmetic operation gives the double nearest to the exact result, ties going to the
  even significand: \<open>round_double\<close> rounds to 53 significant bits (\<open>pow2 (e - 52)\<close> is the
  distance between neighbouring doubles at binary exponent \<open>e\<close>, and the exponent is not
  taken below \<open>-1022\<close>, where the subnormal doubles start). The exponent has no upper
  limit in the model: the readings of a clock and their products with 1000 are far from
  the overflow threshold of \<open>2 ^ 1024\<close>.
\<close>

definition round_half_even :: "real \<Rightarrow> int" where
  "round_half_even q =
     (let f = \<lfloor>q\<rfloor> in
      if q - of_int f < 1 / 2 then f
      else if 1 / 2 < q - of_int f then f + 1
      else if even f then f else f + 1)"

definition pow2 :: "int \<Rightarrow> real" where
  "pow2 k = (if 0 \<le> k then 2 ^ nat k else 1 / 2 ^ nat (- k))"

definition round_double :: "real \<Rightarrow> real" where
  "round_double x =
     (if x = 0 then 0
      else let e = max \<lfloor>log 2 \<bar>x\<bar>\<rfloor> (- 1022);
               ulp = pow2 (e - 52)
           in of_int (round_half_even (x / ulp)) * ulp)"

definition float_sub :: "real \<Rightarrow> real \<Rightarrow> real" where
  "float_sub a b = round_double (a - b)"

definition float_mul :: "real \<Rightarrow> real \<Rightarrow> real" where
  "float_mul a b = round_double (a * b)"

text \<open>\<^verbatim>\<open>int(x)\<close> on a float truncates towards zero.\<close>

definition py_int :: "real \<Rightarrow> int" where
  "py_int x = (if 0 \<le> x then \<lfloor>x\<rfloor> else \<lceil>x\<rceil>)"

text \<open>\<^verbatim>\<open>a or b\<close> on an optional string: \<^verbatim>\<open>None\<close> and the empty string are both falsy.\<close>

definition py_or :: "pystr option \<Rightarrow> pystr \<Rightarrow> pystr" where
  "py_or a b = (case a of None \<Rightarrow> b | Some s \<Rightarrow> if s = [] then b else s)"


section \<open>Text and bytes: the library functions the agent calls\<close>

subsection \<open>UTF-8\<close>

text \<open>
  The host's text encoding is UTF-8 (the agent runs on a Linux machine).
  \<open>utf8_encode\<close> is the strict encoder that \<^verbatim>\<open>Path.write_text\<close> applies: a surrogate code
  point (or a number that is no code point) has no encoding, and Python raises
  \<open>UnicodeEncodeError\<close> there.
\<close>

definition utf8_encode_char :: "nat \<Rightarrow> pybytes option" where
  "utf8_encode_char c =
     (if c < 0x80 then Some [c]
      else if c < 0x800 then Some [0xC0 + c div 64, 0x80 + c mod 64]
      else if c < 0x10000 then
        (if 0xD800 \<le> c \<and> c < 0xE000 then None
         else Some [0xE0 + c div 4096, 0x80 + c div 64 mod 64, 0x80 + c mod 64])
      else if c < 0x110000 then
        Some [0xF0 + c div 262144, 0x80 + c div 4096 mod 64, 0x80 + c div 64 mod 64,
              0x80 + c mod 64]
      else None)"

fun utf8_encode :: "pystr \<Rightarrow> pybytes option" where
  "utf8_encode [] = Some []"
| "utf8_encode (c # cs) =
     (case utf8_encode_char c of
        None \<Rightarrow> None
      | Some b \<Rightarrow> (case utf8_encode cs of None \<Rightarrow> None | Some bs \<Rightarrow> Some (b @ bs)))"

text \<open>
  \<open>utf8_decode_replace\<close> is \<^verbatim>\<open>bytes.decode("utf-8", errors="replace")\<close>: a well-formed
  sequence gives its code point; an ill-formed one gives one \<open>U+FFFD\<close> for its longest
  prefix that could still start a well-formed sequence (at least one byte), and decoding
  goes on right after that prefix. \<open>second_ok\<close> is the narrower range of the second byte
  after the lead bytes \<open>E0\<close>, \<open>ED\<close>, \<open>F0\<close> and \<open>F4\<close> (no overlong forms, no surrogates,
  nothing above \<open>U+10FFFF\<close>).
\<close>

definition is_continuation :: "nat \<Rightarrow> bool" where
  "is_continuation b = (0x80 \<le> b \<and> b < 0xC0)"

definition second_ok :: "nat \<Rightarrow> nat \<Rightarrow> bool" where
  "second_ok b0 b1 =
     (is_continuation b1
      \<and> \<not> (b0 = 0xE0 \<and> b1 < 0xA0) \<and> \<not> (b0 = 0xED \<and> 0xA0 \<le> b1)
      \<and> \<not> (b0 = 0xF0 \<and> b1 < 0x90) \<and> \<not> (b0 = 0xF4 \<and> 0x90 \<le> b1))"

fun utf8_decode_replace :: "pybytes \<Rightarrow> pystr" where
  "utf8_decode_replace [] = []"
| "utf8_decode_replace (b0 # bs) =
     (if b0 < 0x80 then b0 # utf8_decode_replace bs
      else if b0 < 0xC2 \<or> 0xF5 \<le> b0 then 0xFFFD # utf8_decode_replace bs
      else if b0 < 0xE0 then
        (case bs of
           [] \<Rightarrow> [0xFFFD]
         | b1 # r1 \<Rightarrow>
             if is_continuation b1
             then ((b0 - 0xC0) * 64 + (b1 - 0x80)) # utf8_decode_replace r1
             else 0xFFFD # utf8_decode_replace bs)
      else if b0 < 0xF0 then
        (case bs of
           [] \<Rightarrow> [0xFFFD]
         | b1 # r1 \<Rightarrow>
             if \<not> second_ok b0 b1 then 0xFFFD # utf8_decode_replace bs
             else (case r1 of
                     [] \<Rightarrow> [0xFFFD]
                   | b2 # r2 \<Rightarrow>
                       if is_continuation b2
                       then ((b0 - 0xE0) * 4096 + (b1 - 0x80) * 64 + (b2 - 0x80))
                              # utf8_decode_replace r2
                       else 0xFFFD # utf8_decode_replace r1))
      else
        (case bs of
           [] \<Rightarrow> [0xFFFD]
         | b1 # r1 \<Rightarrow>
             if \<not> second_ok b0 b1 then 0xFFFD # utf8_decode_replace bs
             else (case r1 of
                     [] \<Rightarrow> [0xFFFD]
                   | b2 # r2 \<Rightarrow>
                       if \<not> is_continuation b2 then 0xFFFD # utf8_decode_replace r1
                       else (case r2 of
                               [] \<Rightarrow> [0xFFFD]
                             | b3 # r3 \<Rightarrow>
                                 if is_continuation b3
                                 then ((b0 - 0xF0) * 262144 + (b1 - 0x80) * 4096
                                         + (b2 - 0x80) * 64 + (b3 - 0x80))
                                        # utf8_decode_replace r3
                                 else 0xFFFD # utf8_decode_replace r2))))"

text \<open>
  \<open>utf8_decode_strict\<close> is \<^verbatim>\<open>bytes.decode("utf-8")\<close> with the default \<^verbatim>\<open>errors="strict"\<close>:
  the same well-formed sequences, and \<open>None\<close> (Python raises \<open>UnicodeDecodeError\<close>) as soon
  as a sequence is ill-formed or cut off.
\<close>

fun utf8_decode_strict :: "pybytes \<Rightarrow> pystr option" where
  "utf8_decode_strict [] = Some []"
| "utf8_decode_strict (b0 # bs) =
     (if b0 < 0x80 then map_option ((#) b0) (utf8_decode_strict bs)
      else if b0 < 0xC2 \<or> 0xF5 \<le> b0 then None
      else if b0 < 0xE0 then
        (case bs of
           b1 # r1 \<Rightarrow>
             if is_continuation b1
             then map_option ((#) ((b0 - 0xC0) * 64 + (b1 - 0x80))) (utf8_decode_strict r1)
             else None
         | _ \<Rightarrow> None)
      else if b0 < 0xF0 then
        (case bs of
           b1 # b2 # r2 \<Rightarrow>
             if second_ok b0 b1 \<and> is_continuation b2
             then map_option ((#) ((b0 - 0xE0) * 4096 + (b1 - 0x80) * 64 + (b2 - 0x80)))
                    (utf8_decode_strict r2)
             else None
         | _ \<Rightarrow> None)
      else
        (case bs of
           b1 # b2 # b3 # r3 \<Rightarrow>
             if second_ok b0 b1 \<and> is_continuation b2 \<and> is_continuation b3
             then map_option ((#) ((b0 - 0xF0) * 262144 + (b1 - 0x80) * 4096
                                     + (b2 - 0x80) * 64 + (b3 - 0x80)))
                    (utf8_decode_strict r3)
             else None
         | _ \<Rightarrow> None))"

subsection \<open>Lines\<close>

text \<open>
  \<^verbatim>\<open>str.splitlines(keepends)\<close>: a line ends at \<^verbatim>\<open>\n\<close>, \<^verbatim>\<open>\r\<close>, \<^verbatim>\<open>\r\n\<close> (one boundary),
  \<^verbatim>\<open>\v\<close>, \<^verbatim>\<open>\f\<close>, the separators \<open>1C\<close>, \<open>1D\<close>, \<open>1E\<close>, \<open>85\<close>, \<open>U+2028\<close> and \<open>U+2029\<close>;
  text after the last boundary is a line of its own unless it is empty. \<open>cur\<close> holds the
  characters of the line being read.
\<close>

definition is_line_boundary :: "nat \<Rightarrow> bool" where
  "is_line_boundary c = (c \<in> {0x0A, 0x0B, 0x0C, 0x0D, 0x1C, 0x1D, 0x1E, 0x85, 0x2028, 0x2029})"

function splitlines_from :: "bool \<Rightarrow> pystr \<Rightarrow> pystr \<Rightarrow> pystr list" where
  "splitlines_from keepends cur [] = (if cur = [] then [] else [cur])"
| "splitlines_from keepends cur (c # cs) =
     (if c = 0x0D \<and> take 1 cs = [0x0A]
        then (cur @ (if keepends then [0x0D, 0x0A] else [])) # splitlines_from keepends [] (drop 1 cs)
      else if is_line_boundary c
        then (cur @ (if keepends then [c] else [])) # splitlines_from keepends [] cs
      else splitlines_from keepends (cur @ [c]) cs)"
  by pat_completeness auto
termination
  by (relation "measure (\<lambda>(keepends, cur, s). length s)") auto

definition splitlines :: "bool \<Rightarrow> pystr \<Rightarrow> pystr list" where
  "splitlines keepends s = splitlines_from keepends [] s"

text \<open>
  Reading a file in text mode with \<^verbatim>\<open>newline=None\<close> (the default of \<^verbatim>\<open>Path.read_text\<close>)
  turns every \<^verbatim>\<open>\r\n\<close> and every other \<^verbatim>\<open>\r\<close> into \<^verbatim>\<open>\n\<close>. Writing in text mode on Linux
  changes nothing (\<^verbatim>\<open>os.linesep\<close> is \<^verbatim>\<open>\n\<close>).
\<close>

function universal_newlines :: "pystr \<Rightarrow> pystr" where
  "universal_newlines [] = []"
| "universal_newlines (c # cs) =
     (if c = 0x0D
        then 0x0A # universal_newlines (if take 1 cs = [0x0A] then drop 1 cs else cs)
      else c # universal_newlines cs)"
  by pat_completeness auto
termination
  by (relation "measure length") auto

text \<open>
  The two replacements of \<^verbatim>\<open>subprocess\<close>'s text mode,
  \<^verbatim>\<open>data.replace("\r\n", "\n").replace("\r", "\n")\<close>, one after the other.
\<close>

fun replace_crlf :: "pystr \<Rightarrow> pystr" where
  "replace_crlf (c # d # cs) =
     (if c = 0x0D \<and> d = 0x0A then 0x0A # replace_crlf cs else c # replace_crlf (d # cs))"
| "replace_crlf cs = cs"

definition replace_cr :: "pystr \<Rightarrow> pystr" where
  "replace_cr s = map (\<lambda>c. if c = 0x0D then 0x0A else c) s"

text \<open>\<^verbatim>\<open>s.rstrip("\n")\<close>: every newline at the end of \<open>s\<close> is removed.\<close>

definition rstrip_newline :: "pystr \<Rightarrow> pystr" where
  "rstrip_newline s = rev (dropWhile (\<lambda>c. c = 0x0A) (rev s))"


section \<open>The synchronous executor: \<^verbatim>\<open>run_cmd\<close>\<close>

record CommandResult =
  exit_code :: int
  stdout :: pystr
  stderr :: pystr
  duration_ms :: int

text \<open>What \<^verbatim>\<open>subprocess.run\<close> returns: the return code and the two captured texts.\<close>

datatype completed_process = CompletedProcess int pystr pystr

text \<open>
  The operating system is the environment of \<^verbatim>\<open>run_cmd\<close>. \<open>popen_shell env cmd cwd timeout\<close>
  is what happens when \<^verbatim>\<open>subprocess.run\<close> starts \<^verbatim>\<open>/bin/sh -c cmd\<close> in the directory \<open>cwd\<close>
  and collects its output for at most \<open>timeout\<close> seconds: the spawn raises an exception
  (\<open>FileNotFoundError\<close> when \<open>cwd\<close> does not exist), or the shell exits in time with a
  status and the bytes it wrote to stdout and to stderr, or it outlives the timeout (and
  is killed). \<open>PROJECT_DIR\<close> is the module constant of that name.
\<close>

datatype child = Exits int pybytes pybytes | Outlives_timeout

record host =
  PROJECT_DIR :: pystr

record exec_env = host +
  popen_shell :: "pystr \<Rightarrow> pystr \<Rightarrow> int \<Rightarrow> py_exn + child"

text \<open>
  \<^verbatim>\<open>subprocess.run(cmd, shell=True, capture_output=True, text=True, cwd=cwd, timeout=timeout)\<close>:
  the timeout raises \<open>TimeoutExpired\<close>; with \<^verbatim>\<open>text=True\<close> the output of a shell that has
  exited is decoded strictly in the host's encoding, stdout first, and its newlines
  are replaced (\<open>text_mode\<close>), so output that is not UTF-8 raises \<open>UnicodeDecodeError\<close>.
\<close>

definition text_mode :: "pybytes \<Rightarrow> py_exn + pystr" where
  "text_mode data =
     (case utf8_decode_strict data of
        None \<Rightarrow> Inl UnicodeDecodeError
      | Some s \<Rightarrow> Inr (replace_cr (replace_crlf s)))"

definition subprocess_run ::
  "exec_env \<Rightarrow> pystr \<Rightarrow> pystr \<Rightarrow> int \<Rightarrow> py_exn + completed_process" where
  "subprocess_run env cmd cwd timeout =
     (case popen_shell env cmd cwd timeout of
        Inl e \<Rightarrow> Inl e
      | Inr Outlives_timeout \<Rightarrow> Inl TimeoutExpired
      | Inr (Exits rc out_bytes err_bytes) \<Rightarrow>
          (case text_mode out_bytes of
             Inl e \<Rightarrow> Inl e
           | Inr out \<Rightarrow>
               (case text_mode err_bytes of
                  Inl e \<Rightarrow> Inl e
                | Inr err \<Rightarrow> Inr (CompletedProcess rc out err))))"

text \<open>
  \<open>start\<close> and \<open>finish\<close> are the two readings of \<^verbatim>\<open>time.monotonic()\<close>, in seconds: the one
  before \<^verbatim>\<open>subprocess.run\<close> is called and the one taken after it has returned or raised.
  The duration is \<^verbatim>\<open>int((time.monotonic() - start) * 1000)\<close>, computed in doubles. The
  only handler is \<^verbatim>\<open>except subprocess.TimeoutExpired\<close>; every other exception leaves
  \<^verbatim>\<open>run_cmd\<close> as it is.
\<close>

definition run_cmd ::
  "exec_env \<Rightarrow> real \<Rightarrow> real \<Rightarrow> pystr \<Rightarrow> pystr option \<Rightarrow> int \<Rightarrow> py_exn + CommandResult" where
  "run_cmd env start finish cmd cwd timeout =
     (case subprocess_run env cmd (py_or cwd (PROJECT_DIR env)) timeout of
        Inr (CompletedProcess rc out err) \<Rightarrow>
          Inr \<lparr>exit_code = rc,
               stdout = py_last 50000 out,
               stderr = py_last 10000 err,
               duration_ms = py_int (float_mul (float_sub finish start) 1000)\<rparr>
      | Inl e \<Rightarrow>
          if e = TimeoutExpired
          then Inr \<lparr>exit_code = 124,
                    stdout = [],
                    stderr = ascii ''TIMEOUT'',
                    duration_ms = py_int (float_mul (float_sub finish start) 1000)\<rparr>
          else Inl e)"

text \<open>
  A small host for concrete runs. Its project directory is \<^verbatim>\<open>/srv/agent\<close>, the only
  directory that exists; \<^verbatim>\<open>true\<close> exits at once with status 0; \<^verbatim>\<open>sleep 5\<close> needs five
  seconds; \<^verbatim>\<open>head -c 50001 /dev/zero\<close> prints 50001 NUL bytes; \<open>print_ff\<close>, the command
  \<^verbatim>\<open>printf '\377'\<close>, prints the single byte \<open>FF\<close> and exits with status 0; any other command
  is unknown to the shell, which reports exit status 127.
\<close>

definition print_ff :: pystr where
  "print_ff = ascii ''printf '' @ [0x27, 0x5C] @ ascii ''377'' @ [0x27]"

definition demo_popen :: "pystr \<Rightarrow> pystr \<Rightarrow> int \<Rightarrow> py_exn + child" where
  "demo_popen cmd cwd timeout =
     (if cwd \<noteq> ascii ''/srv/agent'' then Inl FileNotFoundError
      else if cmd = ascii ''true'' then Inr (Exits 0 [] [])
      else if cmd = ascii ''sleep 5''
        then (if timeout < 5 then Inr Outlives_timeout else Inr (Exits 0 [] []))
      else if cmd = ascii ''head -c 50001 /dev/zero''
        then Inr (Exits 0 (replicate 50001 0) [])
      else if cmd = print_ff then Inr (Exits 0 [0xFF] [])
      else Inr (Exits 127 [] (ascii ''sh: 1: not found'' @ [0x0A])))"

definition demo_exec :: exec_env where
  "demo_exec = \<lparr>PROJECT_DIR = ascii ''/srv/agent'', popen_shell = demo_popen\<rparr>"




section \<open>The stream session: \<^verbatim>\<open>ws_shell\<close>\<close>

subsection \<open>Messages\<close>

text \<open>
  What \<^verbatim>\<open>json.loads\<close> returns. A JSON object becomes a Python \<^verbatim>\<open>dict\<close>, given here by its
  items (the keys are distinct, as in a \<^verbatim>\<open>dict\<close>).
\<close>

datatype json =
    JNull
  | JBool bool
  | JInt int
  | JFloat real
  | JStr pystr
  | JArr "json list"
  | JObj "(pystr \<times> json) list"

text \<open>
  \<^verbatim>\<open>msg.get(key, default)\<close>: only a \<^verbatim>\<open>dict\<close> has the method; on any other decoded value the
  attribute lookup raises \<open>AttributeError\<close>.
\<close>

definition py_get :: "json \<Rightarrow> pystr \<Rightarrow> json \<Rightarrow> py_exn + json" where
  "py_get msg key dflt =
     (case msg of
        JObj items \<Rightarrow> (case map_of items key of Some v \<Rightarrow> Inr v | None \<Rightarrow> Inr dflt)
      | _ \<Rightarrow> Inl AttributeError)"

text \<open>
  The two kinds of frame the handler sends: \<^verbatim>\<open>{"stream": name, "line": text}\<close> and
  \<^verbatim>\<open>{"done": True, "exit_code": code}\<close> (the specification's \<open>OutputLine\<close> and \<open>Completion\<close>).
\<close>

datatype channel = Stdout | Stderr

datatype frame = OutputLine channel pystr | Completion int

subsection \<open>The environment of a session\<close>

text \<open>
  A subprocess as the handler sees it. \<open>reads\<close> are the lines that the two
  \<^verbatim>\<open>async for line in pipe\<close> loops receive, each with its pipe, in the order in which the
  event loop hands them over (the two loops run interleaved under \<^verbatim>\<open>asyncio.gather\<close>).
  Each line is what \<^verbatim>\<open>readline\<close> has to return: the bytes up to and including the next
  newline, or the rest of the output when no newline follows.
  \<open>pipes_close\<close> says whether both pipes reach end-of-file after these lines, and
  \<open>exit_status\<close> is what \<^verbatim>\<open>proc.wait()\<close> returns, \<open>None\<close> for a process that never exits.
\<close>

record process =
  reads :: "(channel \<times> pybytes) list"
  pipes_close :: bool
  exit_status :: "int option"

text \<open>
  The library calls of the handler are its environment: \<open>json_loads\<close> is \<^verbatim>\<open>json.loads\<close>
  (\<open>Inl\<close> the exception it raises, \<open>JSONDecodeError\<close> on malformed text);
  \<open>create_subprocess_shell env cmd cwd\<close> is the outcome of
  \<^verbatim>\<open>asyncio.create_subprocess_shell(cmd, stdout=PIPE, stderr=PIPE, cwd=cwd)\<close>, either the
  subprocess or the exception raised (\<open>FileNotFoundError\<close> for a directory that does not
  exist); \<open>send_closed\<close> is the exception \<^verbatim>\<open>ws.send_json\<close> raises once the peer is gone.
\<close>

record ws_env = host +
  json_loads :: "pystr \<Rightarrow> py_exn + json"
  create_subprocess_shell :: "json \<Rightarrow> json \<Rightarrow> py_exn + process"
  send_closed :: py_exn

text \<open>
  The peer of a connection: the text messages it sends, in order, possibly followed by its
  disconnect; and its \<open>patience\<close>, the number of frames it takes before it goes away
  (\<open>None\<close>: it takes every frame). When the list of messages is used up without a
  disconnect, the peer stays connected and silent. The peer sends text messages only.
\<close>

datatype incoming = Text pystr | Disconnect

record client =
  messages :: "incoming list"
  patience :: "nat option"

fun affords :: "nat option \<Rightarrow> nat \<Rightarrow> bool" where
  "affords None n = True"
| "affords (Some k) n = (n \<le> k)"

fun spend :: "nat option \<Rightarrow> nat \<Rightarrow> nat option" where
  "spend None n = None"
| "spend (Some k) n = Some (k - n)"

subsection \<open>The handler\<close>

text \<open>
  The handler's run is recorded as the list of its effects: \<open>Accept\<close> (\<^verbatim>\<open>ws.accept()\<close>),
  \<open>Spawn cmd cwd\<close> (a subprocess was created), \<open>Send\<close> (a frame went out), \<open>Drained\<close>
  (\<^verbatim>\<open>asyncio.gather\<close> returned: both pipes are at end-of-file), \<open>Wait rc\<close>
  (\<^verbatim>\<open>proc.wait()\<close> returned \<open>rc\<close>). \<open>Signal\<close> stands for a signal sent to the subprocess
  (\<^verbatim>\<open>terminate\<close>, \<^verbatim>\<open>kill\<close>, \<^verbatim>\<open>send_signal\<close>); the handler has no such call, and the effect
  is listed so that this can be stated.
\<close>

datatype action = Accept | Spawn json json | Send frame | Drained | Wait int | Signal

text \<open>
  How the \<^verbatim>\<open>while True\<close> loop stops: an exception leaves it, or it is suspended for good,
  in \<^verbatim>\<open>receive_text\<close> (no message comes) or on a subprocess that never finishes.
\<close>

datatype halt = Raised py_exn | Awaits_message | Awaits_process

text \<open>
  One line of a pipe, as forwarded by \<^verbatim>\<open>stream\<close>: decoded with replacement, trailing
  newline stripped, sent with the pipe's name.
\<close>

definition send_line :: "channel \<times> pybytes \<Rightarrow> action" where
  "send_line r =
     (case r of (name, line) \<Rightarrow> Send (OutputLine name (rstrip_newline (utf8_decode_replace line))))"

text \<open>
  The pipes are read through \<^verbatim>\<open>StreamReader\<close>s with the default limit of \<open>2 ** 16\<close> bytes
  (\<^verbatim>\<open>create_subprocess_shell\<close> is called without \<^verbatim>\<open>limit=\<close>). \<^verbatim>\<open>async for line in pipe\<close>
  calls \<^verbatim>\<open>readline\<close>, which raises \<open>ValueError\<close> when more than that many bytes come before
  the next newline (or before the end of the output).
\<close>

definition stream_limit :: nat where
  "stream_limit = 2 ^ 16"

definition over_limit :: "pybytes \<Rightarrow> bool" where
  "over_limit line = (stream_limit < length (takeWhile (\<lambda>c. c \<noteq> 0x0A) line))"

text \<open>
  \<^verbatim>\<open>asyncio.gather(stream(proc.stdout, "stdout"), stream(proc.stderr, "stderr"))\<close> over the
  lines read, with the peer's remaining patience \<open>b\<close>: the frames sent, the patience left,
  and the exception that ended the drain, if any. A line over the limit raises
  \<open>ValueError\<close> in \<^verbatim>\<open>readline\<close>; a \<^verbatim>\<open>send_json\<close> to a peer that is gone raises \<open>gone\<close>; the
  first exception of either loop is passed on by \<^verbatim>\<open>gather\<close>. (The other loop is not
  cancelled, but the handler has ended by then; the model records the handler's effects.)
\<close>

fun gather_streams ::
  "py_exn \<Rightarrow> nat option \<Rightarrow> (channel \<times> pybytes) list
     \<Rightarrow> action list \<times> nat option \<times> py_exn option" where
  "gather_streams gone b [] = ([], b, None)"
| "gather_streams gone b (r # others) =
     (if over_limit (snd r) then ([], b, Some ValueError)
      else if affords b 1
      then (case gather_streams gone (spend b 1) others of
              (acts, b', raised) \<Rightarrow> (send_line r # acts, b', raised))
      else ([], b, Some gone))"

text \<open>
  The body of \<^verbatim>\<open>try: while True: ...\<close>, started with the messages not yet received. Each
  \<^verbatim>\<open>await\<close> that can raise is a \<open>case\<close>; the exception ends the loop, since no statement of
  the loop body has a handler of its own.
\<close>

fun serve :: "ws_env \<Rightarrow> nat option \<Rightarrow> incoming list \<Rightarrow> action list \<times> halt" where
  "serve env b [] = ([], Awaits_message)"
| "serve env b (Disconnect # rest) = ([], Raised WebSocketDisconnect)"
| "serve env b (Text data # rest) =
     (case json_loads env data of
        Inl e \<Rightarrow> ([], Raised e)
      | Inr msg \<Rightarrow>
     (case py_get msg (ascii ''command'') (JStr []) of
        Inl e \<Rightarrow> ([], Raised e)
      | Inr cmd \<Rightarrow>
     (case py_get msg (ascii ''cwd'') (JStr (PROJECT_DIR env)) of
        Inl e \<Rightarrow> ([], Raised e)
      | Inr cwd \<Rightarrow>
     (case create_subprocess_shell env cmd cwd of
        Inl e \<Rightarrow> ([], Raised e)
      | Inr proc \<Rightarrow>
     (case gather_streams (send_closed env) b (reads proc) of
        (sent, b1, Some e) \<Rightarrow> (Spawn cmd cwd # sent, Raised e)
      | (sent, b1, None) \<Rightarrow>
          if \<not> pipes_close proc then (Spawn cmd cwd # sent, Awaits_process)
          else (case exit_status proc of
                  None \<Rightarrow> (Spawn cmd cwd # sent @ [Drained], Awaits_process)
                | Some rc \<Rightarrow>
                    if \<not> affords b1 1
                    then (Spawn cmd cwd # sent @ [Drained, Wait rc], Raised (send_closed env))
                    else (case serve env (spend b1 1) rest of
                            (later, h) \<Rightarrow>
                              (Spawn cmd cwd # sent @ [Drained, Wait rc, Send (Completion rc)]
                                 @ later,
                               h))))))))"

text \<open>
  \<^verbatim>\<open>ws_shell\<close> itself: \<^verbatim>\<open>accept\<close>, the loop, and \<^verbatim>\<open>except WebSocketDisconnect: pass\<close>. The
  session ends \<open>Closed\<close> when the handler returns after a disconnect, and \<open>Failed e\<close> when
  any other exception \<open>e\<close> leaves the handler (the server then drops the connection). It
  stays \<open>Idle\<close> or \<open>Running\<close> when the handler is suspended for good.
\<close>

datatype status = Idle | Running | Closed | Failed py_exn

definition ws_shell :: "ws_env \<Rightarrow> client \<Rightarrow> action list \<times> status" where
  "ws_shell env c =
     (case serve env (patience c) (messages c) of
        (acts, Raised e) \<Rightarrow> (Accept # acts, if e = WebSocketDisconnect then Closed else Failed e)
      | (acts, Awaits_message) \<Rightarrow> (Accept # acts, Idle)
      | (acts, Awaits_process) \<Rightarrow> (Accept # acts, Running))"

subsection \<open>The order of effects within a command\<close>

text \<open>
  The effects of one command, as an automaton: spawn, then output lines only, then
  end-of-file on both pipes, then the wait, then the one completion frame carrying the
  exit status waited for. \<open>run_phases\<close> is \<open>None\<close> as soon as an effect comes out of
  turn (a second completion, a completion before the wait, a line after the drain).
\<close>

datatype phase = Between_commands | Draining | Pipes_at_eof | Exit_known int

fun next_phase :: "phase \<Rightarrow> action \<Rightarrow> phase option" where
  "next_phase Between_commands (Spawn cmd cwd) = Some Draining"
| "next_phase Draining (Send (OutputLine name line)) = Some Draining"
| "next_phase Draining Drained = Some Pipes_at_eof"
| "next_phase Pipes_at_eof (Wait rc) = Some (Exit_known rc)"
| "next_phase (Exit_known rc) (Send (Completion rc')) =
     (if rc' = rc then Some Between_commands else None)"
| "next_phase ph a = None"

fun run_phases :: "phase \<Rightarrow> action list \<Rightarrow> phase option" where
  "run_phases ph [] = Some ph"
| "run_phases ph (a # acts) =
     (case next_phase ph a of None \<Rightarrow> None | Some ph' \<Rightarrow> run_phases ph' acts)"

subsection \<open>A host for concrete sessions\<close>

text \<open>
  The texts a peer submits below, and what \<^verbatim>\<open>json.loads\<close> makes of them: \<open>dq\<close> puts a
  word in double quotes. \<open>demo_loads\<close> agrees with \<^verbatim>\<open>json.loads\<close> on these nine texts (the
  one called malformed is cut off after the colon, and \<^verbatim>\<open>json.loads\<close> raises \<open>JSONDecodeError\<close>); no
  other text is submitted.
\<close>

definition dq :: "string \<Rightarrow> pystr" where
  "dq s = 0x22 # ascii s @ [0x22]"

definition submit_echo :: pystr where
  "submit_echo = ascii ''{'' @ dq ''command'' @ ascii '': '' @ dq ''echo hello'' @ ascii ''}''"

definition submit_seq :: pystr where
  "submit_seq = ascii ''{'' @ dq ''command'' @ ascii '': '' @ dq ''seq 3'' @ ascii ''}''"

definition submit_no_command :: pystr where
  "submit_no_command = ascii ''{}''"

definition submit_bad_cwd :: pystr where
  "submit_bad_cwd = ascii ''{'' @ dq ''command'' @ ascii '': '' @ dq ''true'' @ ascii '', ''
                      @ dq ''cwd'' @ ascii '': '' @ dq ''/nonexistent'' @ ascii ''}''"

definition submit_only_bad_cwd :: pystr where
  "submit_only_bad_cwd = ascii ''{'' @ dq ''cwd'' @ ascii '': '' @ dq ''/nonexistent'' @ ascii ''}''"

definition submit_long_line :: pystr where
  "submit_long_line =
     ascii ''{'' @ dq ''command'' @ ascii '': '' @ dq ''head -c 65537 /dev/zero'' @ ascii ''}''"

definition submit_tail :: pystr where
  "submit_tail =
     ascii ''{'' @ dq ''command'' @ ascii '': '' @ dq ''tail -f /var/log/agent.log'' @ ascii ''}''"

definition submit_list :: pystr where
  "submit_list = ascii ''[1, 2]''"

definition submit_malformed :: pystr where
  "submit_malformed = ascii ''{'' @ dq ''command'' @ ascii '': ''"

definition demo_loads :: "pystr \<Rightarrow> py_exn + json" where
  "demo_loads data =
     (if data = submit_echo then Inr (JObj [(ascii ''command'', JStr (ascii ''echo hello''))])
      else if data = submit_seq then Inr (JObj [(ascii ''command'', JStr (ascii ''seq 3''))])
      else if data = submit_no_command then Inr (JObj [])
      else if data = submit_bad_cwd
        then Inr (JObj [(ascii ''command'', JStr (ascii ''true'')),
                        (ascii ''cwd'', JStr (ascii ''/nonexistent''))])
      else if data = submit_list then Inr (JArr [JInt 1, JInt 2])
      else if data = submit_only_bad_cwd
        then Inr (JObj [(ascii ''cwd'', JStr (ascii ''/nonexistent''))])
      else if data = submit_long_line
        then Inr (JObj [(ascii ''command'', JStr (ascii ''head -c 65537 /dev/zero''))])
      else if data = submit_tail
        then Inr (JObj [(ascii ''command'', JStr (ascii ''tail -f /var/log/agent.log''))])
      else Inl JSONDecodeError)"

text \<open>
  The shell of the demo host: the empty command and \<^verbatim>\<open>true\<close> print nothing and exit
  with 0, \<^verbatim>\<open>echo hello\<close> prints one line, \<^verbatim>\<open>seq 3\<close> three;
  \<^verbatim>\<open>head -c 65537 /dev/zero\<close> prints 65537 NUL bytes without a newline and exits with 0;
  \<^verbatim>\<open>tail -f /var/log/agent.log\<close> prints the two lines of the log and then waits for more,
  for ever; any other command is not found (status 127, one line on stderr). A subprocess is created for a string command
  in the directory \<^verbatim>\<open>/srv/agent\<close> only; \<^verbatim>\<open>create_subprocess_shell\<close> raises
  \<open>FileNotFoundError\<close> for another directory, and \<open>ValueError\<close> or \<open>TypeError\<close> for a command
  or a directory that is not a string.
\<close>

definition demo_shell :: "pystr \<Rightarrow> process" where
  "demo_shell cmd =
     (if cmd = [] \<or> cmd = ascii ''true''
        then \<lparr>reads = [], pipes_close = True, exit_status = Some 0\<rparr>
      else if cmd = ascii ''echo hello''
        then \<lparr>reads = [(Stdout, ascii ''hello'' @ [0x0A])], pipes_close = True,
              exit_status = Some 0\<rparr>
      else if cmd = ascii ''seq 3''
        then \<lparr>reads = [(Stdout, [0x31, 0x0A]), (Stdout, [0x32, 0x0A]), (Stdout, [0x33, 0x0A])],
              pipes_close = True, exit_status = Some 0\<rparr>
      else if cmd = ascii ''head -c 65537 /dev/zero''
        then \<lparr>reads = [(Stdout, replicate 65537 0)], pipes_close = True, exit_status = Some 0\<rparr>
      else if cmd = ascii ''tail -f /var/log/agent.log''
        then \<lparr>reads = [(Stdout, ascii ''boot'' @ [0x0A]), (Stdout, ascii ''ready'' @ [0x0A])],
              pipes_close = False, exit_status = None\<rparr>
      else \<lparr>reads = [(Stderr, ascii ''sh: 1: not found'' @ [0x0A])], pipes_close = True,
            exit_status = Some 127\<rparr>)"

definition demo_spawn :: "json \<Rightarrow> json \<Rightarrow> py_exn + process" where
  "demo_spawn cmd cwd =
     (case cmd of
        JStr c \<Rightarrow>
          (case cwd of
             JStr d \<Rightarrow> if d = ascii ''/srv/agent'' then Inr (demo_shell c)
                       else Inl FileNotFoundError
           | JNull \<Rightarrow> Inr (demo_shell c)
           | _ \<Rightarrow> Inl TypeError)
      | _ \<Rightarrow> Inl ValueError)"

definition demo_ws :: ws_env where
  "demo_ws = \<lparr>PROJECT_DIR = ascii ''/srv/agent'', json_loads = demo_loads,
              create_subprocess_shell = demo_spawn, send_closed = WebSocketDisconnect\<rparr>"


section \<open>File access: \<^verbatim>\<open>read_file\<close> and \<^verbatim>\<open>write_file\<close>\<close>

subsection \<open>The file system\<close>

text \<open>
  A path is the list of its components below the root (the root is \<open>[]\<close>). A node is
  \<^item> \<open>File b\<close>, a regular file with the bytes \<open>b\<close> that the agent's process may read and
    write;
  \<^item> \<open>Unreadable b\<close>, a regular file that the process may write but not read (mode
    \<^verbatim>\<open>0200\<close> for a process that is not root);
  \<^item> \<open>Dir\<close>, a directory;
  \<^item> \<open>Special r\<close>, a device or another node that is neither a regular file nor a
    directory; \<open>r\<close> is what opening it for writing and writing to it does: \<open>None\<close> when it
    takes the bytes and stays as it is (as \<^verbatim>\<open>/dev/null\<close> does), \<open>Some e\<close> when that raises \<open>e\<close>.
  The file system maps the paths that exist to their nodes. Further permissions, links,
  quotas and nodes that block the writer (a FIFO without a reader) are not modelled.
\<close>

type_synonym path = "pystr list"

datatype node = File pybytes | Unreadable pybytes | Dir | Special "py_exn option"

type_synonym filesystem = "path \<Rightarrow> node option"

definition parent :: "path \<Rightarrow> path" where
  "parent p = butlast p"

definition exists_path :: "filesystem \<Rightarrow> path \<Rightarrow> bool" where
  "exists_path fs p = (fs p \<noteq> None)"

definition is_file :: "filesystem \<Rightarrow> path \<Rightarrow> bool" where
  "is_file fs p =
     (case fs p of Some (File b) \<Rightarrow> True | Some (Unreadable b) \<Rightarrow> True | _ \<Rightarrow> False)"

definition is_dir :: "filesystem \<Rightarrow> path \<Rightarrow> bool" where
  "is_dir fs p = (fs p = Some Dir)"

text \<open>\<open>readable_file fs p\<close>: the path names a regular file that the process may read.\<close>

definition readable_file :: "filesystem \<Rightarrow> path \<Rightarrow> bool" where
  "readable_file fs p = (case fs p of Some (File b) \<Rightarrow> True | _ \<Rightarrow> False)"

text \<open>A state-changing call returns its result, or the exception, with the new state.\<close>

definition os_mkdir :: "filesystem \<Rightarrow> path \<Rightarrow> (py_exn + unit) \<times> filesystem" where
  "os_mkdir fs p =
     (if exists_path fs p then (Inl FileExistsError, fs)
      else (case fs (parent p) of
              None \<Rightarrow> (Inl FileNotFoundError, fs)
            | Some Dir \<Rightarrow> (Inr (), fs(p \<mapsto> Dir))
            | Some other \<Rightarrow> (Inl NotADirectoryError, fs)))"

text \<open>
  \<^verbatim>\<open>Path.mkdir(parents, exist_ok)\<close> as \<^verbatim>\<open>pathlib\<close> defines it: try \<^verbatim>\<open>os.mkdir\<close>; on
  \<open>FileNotFoundError\<close> make the parent first (with \<^verbatim>\<open>parents=True, exist_ok=True\<close>) and try
  again without \<^verbatim>\<open>parents\<close>; any other \<open>OSError\<close> is passed over when \<^verbatim>\<open>exist_ok\<close> holds and
  the path is a directory.
\<close>

function mkdir :: "filesystem \<Rightarrow> path \<Rightarrow> bool \<Rightarrow> bool \<Rightarrow> (py_exn + unit) \<times> filesystem" where
  "mkdir fs p parents exist_ok =
     (case os_mkdir fs p of
        (Inr u, fs1) \<Rightarrow> (Inr (), fs1)
      | (Inl e, fs1) \<Rightarrow>
          if e = FileNotFoundError then
            (if \<not> parents \<or> parent p = p then (Inl e, fs1)
             else (case mkdir fs1 (parent p) True True of
                     (Inl e', fs2) \<Rightarrow> (Inl e', fs2)
                   | (Inr u, fs2) \<Rightarrow> mkdir fs2 p False exist_ok))
          else if \<not> exist_ok \<or> \<not> is_dir fs1 p then (Inl e, fs1)
          else (Inr (), fs1))"
  by pat_completeness auto
termination
proof (relation "measure (\<lambda>(fs, p, parents, exist_ok). 2 * length p + (if parents then 1 else 0))",
    goal_cases)
  case 1
  show ?case by simp
next
  case (2 fs p parents exist_ok x e fs1)
  then have "p \<noteq> []" by (auto simp: parent_def)
  then show ?case by (cases p) (auto simp: parent_def)
next
  case (3 fs p parents exist_ok x e fs1 y u fs2)
  then show ?case by simp
qed

declare mkdir.simps [simp del]

text \<open>
  \<open>written old b\<close> is the node at a path after \<open>b\<close> has been written over the node \<open>old\<close>:
  a regular file keeps its kind, a special node stays as it is, and a path that did not
  exist becomes a file the process may read and write.
\<close>

definition written :: "node option \<Rightarrow> pybytes \<Rightarrow> node" where
  "written old b =
     (case old of
        Some (Unreadable c) \<Rightarrow> Unreadable b
      | Some (Special r) \<Rightarrow> Special r
      | _ \<Rightarrow> File b)"

text \<open>
  \<^verbatim>\<open>open(p, "w")\<close> creates or empties the file; \<^verbatim>\<open>Path.write_text\<close> then encodes the text
  and writes the bytes, and returns the number of characters written.
\<close>

definition open_w :: "filesystem \<Rightarrow> path \<Rightarrow> (py_exn + unit) \<times> filesystem" where
  "open_w fs p =
     (if is_dir fs p then (Inl IsADirectoryError, fs)
      else (case fs (parent p) of
              None \<Rightarrow> (Inl FileNotFoundError, fs)
            | Some Dir \<Rightarrow>
                (case fs p of
                   Some (Special (Some e)) \<Rightarrow> (Inl e, fs)
                 | old \<Rightarrow> (Inr (), fs(p \<mapsto> written old [])))
            | Some other \<Rightarrow> (Inl NotADirectoryError, fs)))"

definition write_text :: "filesystem \<Rightarrow> path \<Rightarrow> pystr \<Rightarrow> (py_exn + nat) \<times> filesystem" where
  "write_text fs p data =
     (case open_w fs p of
        (Inl e, fs1) \<Rightarrow> (Inl e, fs1)
      | (Inr u, fs1) \<Rightarrow>
          (case utf8_encode data of
             None \<Rightarrow> (Inl UnicodeEncodeError, fs1)
           | Some b \<Rightarrow> (Inr (length data), fs1(p \<mapsto> written (fs1 p) b))))"

subsection \<open>The two routes\<close>

text \<open>
  The responses are the dictionaries the routes return; \<open>path\<close> holds the path \<open>p\<close> (the
  route returns \<^verbatim>\<open>str(p)\<close>). The request's fields are the parameters \<open>req_path\<close>,
  \<open>offset\<close>, \<open>limit\<close> and \<open>req_content\<close>. \<open>locate\<close> is \<^verbatim>\<open>Path(req.path).expanduser()\<close>, read
  as the node the path names.

  In \<^verbatim>\<open>read_file\<close>, after the two guards the node is a regular file.
  \<^verbatim>\<open>p.read_text(errors="replace")\<close> decodes its bytes with replacement and translates the
  newlines; it raises \<open>PermissionError\<close> when the process may not read the file.
\<close>

record file_response =
  path :: path

record read_response = file_response +
  content :: pystr
  total_lines :: nat

record write_response = file_response +
  bytes_written :: nat

definition read_file ::
  "(pystr \<Rightarrow> path) \<Rightarrow> filesystem \<Rightarrow> pystr \<Rightarrow> int \<Rightarrow> int \<Rightarrow> py_exn + read_response" where
  "read_file locate fs req_path offset limit =
     (let p = locate req_path in
      if \<not> exists_path fs p then Inl (HTTPException 404)
      else if \<not> is_file fs p then Inl (HTTPException 400)
      else (case fs p of
              Some (File b) \<Rightarrow>
                let text = universal_newlines (utf8_decode_replace b);
                    lines = splitlines True text;
                    lines = (if offset > 0 then drop (nat offset) lines else lines);
                    lines = (if limit > 0 then take (nat limit) lines else lines)
                in Inr \<lparr>path = p, content = concat lines,
                        total_lines = length (splitlines False text)\<rparr>
            | _ \<Rightarrow> Inl PermissionError))"

definition write_file ::
  "(pystr \<Rightarrow> path) \<Rightarrow> filesystem \<Rightarrow> pystr \<Rightarrow> pystr
     \<Rightarrow> (py_exn + write_response) \<times> filesystem" where
  "write_file locate fs req_path req_content =
     (let p = locate req_path in
      case mkdir fs (parent p) True True of
        (Inl e, fs1) \<Rightarrow> (Inl e, fs1)
      | (Inr u, fs1) \<Rightarrow>
          (case write_text fs1 p req_content of
             (Inl e, fs2) \<Rightarrow> (Inl e, fs2)
           | (Inr n, fs2) \<Rightarrow> (Inr \<lparr>path = p, bytes_written = length req_content\<rparr>, fs2)))"

subsection \<open>A file system for concrete requests\<close>

text \<open>
  \<open>demo_locate\<close> reads an absolute path without \<^verbatim>\<open>.\<close>, \<^verbatim>\<open>..\<close> or \<^verbatim>\<open>~\<close> components: its
  components are the non-empty pieces between slashes. \<open>root_only\<close> is the file system
  with the root directory and nothing else; \<open>small_host\<close> has, besides the root, the
  directory \<^verbatim>\<open>/dev\<close> with the device \<^verbatim>\<open>/dev/null\<close>, and the directory \<^verbatim>\<open>/srv\<close> with
  \<^verbatim>\<open>/srv/drop.txt\<close>, an empty file that the process may write but not read.
\<close>

fun components_from :: "pystr \<Rightarrow> pystr \<Rightarrow> path" where
  "components_from cur [] = (if cur = [] then [] else [cur])"
| "components_from cur (c # cs) =
     (if c = 0x2F then (if cur = [] then [] else [cur]) @ components_from [] cs
      else components_from (cur @ [c]) cs)"

definition demo_locate :: "pystr \<Rightarrow> path" where
  "demo_locate s = components_from [] s"

definition root_only :: filesystem where
  "root_only = Map.empty([] \<mapsto> Dir)"

definition small_host :: filesystem where
  "small_host =
     Map.empty([] \<mapsto> Dir, [ascii ''dev''] \<mapsto> Dir, [ascii ''dev'', ascii ''null''] \<mapsto> Special None,
               [ascii ''srv''] \<mapsto> Dir, [ascii ''srv'', ascii ''drop.txt''] \<mapsto> Unreadable [])"


section \<open>Properties of the library functions\<close>

subsection \<open>UTF-8 round trip\<close>








subsection \<open>Lines and newlines\<close>

lemma concat_splitlines_from: "concat (splitlines_from True cur s) = cur @ s"
proof (induction "True" cur s rule: splitlines_from.induct)
  case (1 cur)
  then show ?case by simp
next
  case (2 cur c cs)
  show ?case
  proof (cases "c = 0x0D \<and> take 1 cs = [0x0A]")
    case True
    then have "cs = 0x0A # drop 1 cs" by (cases cs) auto
    then have "cur @ c # cs = (cur @ [0x0D, 0x0A]) @ drop 1 cs" using True by simp
    then show ?thesis using True 2(1) by simp
  next
    case False
    then show ?thesis using 2(2,3) by (cases "is_line_boundary c") auto
  qed
qed



subsection \<open>Text mode\<close>





subsection \<open>Rounding to a double\<close>






section \<open>Properties of the executor\<close>

lemmas demo_exec_defs =
  run_cmd_def subprocess_run_def demo_exec_def demo_popen_def py_or_def ascii_def print_ff_def




text \<open>
  C2 (as stated: the executor never raises, also not on a spawn failure from a bad working
  directory). The statement fails: on the demo host the directory \<^verbatim>\<open>/nonexistent\<close> does not
  exist, \<^verbatim>\<open>subprocess.run\<close> raises \<open>FileNotFoundError\<close>, and \<^verbatim>\<open>run_cmd\<close>, which handles
  \<open>TimeoutExpired\<close> only, lets it through.
\<close>

theorem run_cmd_bad_cwd_raises:
  "run_cmd demo_exec 0 0.01 (ascii ''true'') (Some (ascii ''/nonexistent'')) 300
     = Inl FileNotFoundError"
  by (simp add: demo_exec_defs)

text \<open>
  C2 (amended): \<^verbatim>\<open>run_cmd\<close> raises exactly the exceptions of \<^verbatim>\<open>subprocess.run\<close> other than
  \<open>TimeoutExpired\<close>, unchanged; whenever \<^verbatim>\<open>subprocess.run\<close> returns or times out,
  \<^verbatim>\<open>run_cmd\<close> returns a \<open>CommandResult\<close>.
\<close>

theorem run_cmd_raises_iff:
  "((run_cmd env start finish cmd cwd timeout = Inl e) =
      (subprocess_run env cmd (py_or cwd (PROJECT_DIR env)) timeout = Inl e
       \<and> e \<noteq> TimeoutExpired))
 \<and> ((\<exists>r. run_cmd env start finish cmd cwd timeout = Inr r) =
      (subprocess_run env cmd (py_or cwd (PROJECT_DIR env)) timeout = Inl TimeoutExpired
       \<or> (\<exists>p. subprocess_run env cmd (py_or cwd (PROJECT_DIR env)) timeout = Inr p)))"
  by (auto simp: run_cmd_def split: sum.splits completed_process.splits)

theorem run_cmd_raises_iff_witness:
  "run_cmd demo_exec 0 1.002 (ascii ''sleep 5'') None 1 \<noteq> Inl TimeoutExpired
   \<and> run_cmd demo_exec 0 0.01 (ascii ''true'') (Some (ascii ''/nonexistent'')) 300
       = Inl FileNotFoundError"
  using run_cmd_raises_iff [of demo_exec 0 "1.002" "ascii ''sleep 5''" None 1 TimeoutExpired]
    run_cmd_raises_iff [of demo_exec 0 "0.01" "ascii ''true''" "Some (ascii ''/nonexistent'')" 300
      FileNotFoundError]
  by (simp add: subprocess_run_def demo_exec_def demo_popen_def py_or_def ascii_def print_ff_def)






section \<open>Properties of the stream session\<close>

lemmas demo_ws_defs =
  ws_shell_def demo_ws_def demo_loads_def demo_spawn_def demo_shell_def py_get_def
  send_line_def rstrip_newline_def submit_malformed_def submit_echo_def submit_seq_def
  submit_no_command_def submit_bad_cwd_def submit_list_def submit_only_bad_cwd_def
  submit_long_line_def submit_tail_def dq_def ascii_def over_limit_def stream_limit_def

lemma gather_streams_all:
  "list_all (\<lambda>r. \<not> over_limit (snd r)) rs \<Longrightarrow> affords b (length rs) \<Longrightarrow>
   gather_streams gone b rs = (map send_line rs, spend b (length rs), None)"
proof (induction rs arbitrary: b)
  case Nil
  then show ?case by (cases b) auto
next
  case (Cons r rs)
  show ?case
  proof (cases b)
    case None
    then show ?thesis using Cons.IH [of None] Cons.prems by simp
  next
    case (Some k)
    then have "affords (Some (k - 1)) (length rs)" "1 \<le> k"
      using Cons.prems by auto
    then show ?thesis using Cons.IH [of "Some (k - 1)"] Some Cons.prems by simp
  qed
qed

lemma gather_streams_cut:
  "k < length rs \<Longrightarrow> list_all (\<lambda>r. \<not> over_limit (snd r)) (take (Suc k) rs) \<Longrightarrow>
   gather_streams gone (Some k) rs = (map send_line (take k rs), Some 0, Some gone)"
proof (induction rs arbitrary: k)
  case Nil
  then show ?case by simp
next
  case (Cons r rs)
  show ?case
  proof (cases k)
    case 0
    then show ?thesis using Cons.prems by simp
  next
    case (Suc j)
    then have "j < length rs" "list_all (\<lambda>r. \<not> over_limit (snd r)) (take (Suc j) rs)"
      using Cons.prems by simp_all
    then show ?thesis using Cons.IH [of j] Suc Cons.prems by simp
  qed
qed

lemma gather_streams_long:
  "list_all (\<lambda>r. \<not> over_limit (snd r)) (take k rs) \<Longrightarrow> k < length rs \<Longrightarrow>
   over_limit (snd (rs ! k)) \<Longrightarrow> affords b k \<Longrightarrow>
   gather_streams gone b rs = (map send_line (take k rs), spend b k, Some ValueError)"
proof (induction rs arbitrary: k b)
  case Nil
  then show ?case by simp
next
  case (Cons r rs)
  show ?case
  proof (cases k)
    case 0
    then show ?thesis using Cons.prems by (cases b) simp_all
  next
    case (Suc j)
    then have p: "list_all (\<lambda>r. \<not> over_limit (snd r)) (take j rs)" "j < length rs"
      "over_limit (snd (rs ! j))" "\<not> over_limit (snd r)"
      using Cons.prems by simp_all
    show ?thesis
    proof (cases b)
      case None
      then show ?thesis using Cons.IH [OF p(1-3), of None] p(4) Suc by simp
    next
      case (Some n)
      then have "affords (Some (n - 1)) j" "1 \<le> n"
        using Cons.prems(4) Suc by auto
      then show ?thesis using Cons.IH [OF p(1-3), of "Some (n - 1)"] p(4) Suc Some by simp
    qed
  qed
qed

lemma affords_less:
  "affords b (Suc n) \<Longrightarrow>
   affords b n \<and> affords (spend b n) 1 \<and> spend (spend b n) 1 = spend b (Suc n)"
  by (cases b) auto

lemma send_line_eq:
  "send_line = (\<lambda>(name, line). Send (OutputLine name (rstrip_newline (utf8_decode_replace line))))"
  by (simp add: send_line_def fun_eq_iff)

lemma serve_normal:
  assumes "json_loads env data = Inr msg"
    and "py_get msg (ascii ''command'') (JStr []) = Inr cmd"
    and "py_get msg (ascii ''cwd'') (JStr (PROJECT_DIR env)) = Inr cwd"
    and "create_subprocess_shell env cmd cwd = Inr proc"
    and "list_all (\<lambda>r. \<not> over_limit (snd r)) (reads proc)"
    and "pipes_close proc"
    and "exit_status proc = Some rc"
    and "affords b (Suc (length (reads proc)))"
  shows "serve env b (Text data # rest) =
           (Spawn cmd cwd # map send_line (reads proc) @ [Drained, Wait rc, Send (Completion rc)]
              @ fst (serve env (spend b (Suc (length (reads proc)))) rest),
            snd (serve env (spend b (Suc (length (reads proc)))) rest))"
proof -
  note a = affords_less [OF assms(8)]
  have g: "gather_streams (send_closed env) b (reads proc)
             = (map send_line (reads proc), spend b (length (reads proc)), None)"
    using a gather_streams_all [OF assms(5)] by blast
  show ?thesis
    using assms(1-4,6,7) g a by (simp add: case_prod_unfold)
qed

lemma serve_cut:
  assumes "json_loads env data = Inr msg"
    and "py_get msg (ascii ''command'') (JStr []) = Inr cmd"
    and "py_get msg (ascii ''cwd'') (JStr (PROJECT_DIR env)) = Inr cwd"
    and "create_subprocess_shell env cmd cwd = Inr proc"
    and "k < length (reads proc)"
    and "list_all (\<lambda>r. \<not> over_limit (snd r)) (take (Suc k) (reads proc))"
  shows "serve env (Some k) (Text data # rest) =
           (Spawn cmd cwd # map send_line (take k (reads proc)), Raised (send_closed env))"
  using assms(1-4) gather_streams_cut [OF assms(5,6)] by simp

lemma serve_long:
  assumes "json_loads env data = Inr msg"
    and "py_get msg (ascii ''command'') (JStr []) = Inr cmd"
    and "py_get msg (ascii ''cwd'') (JStr (PROJECT_DIR env)) = Inr cwd"
    and "create_subprocess_shell env cmd cwd = Inr proc"
    and "list_all (\<lambda>r. \<not> over_limit (snd r)) (take k (reads proc))"
    and "k < length (reads proc)"
    and "over_limit (snd (reads proc ! k))"
    and "affords b k"
  shows "serve env b (Text data # rest) =
           (Spawn cmd cwd # map send_line (take k (reads proc)), Raised ValueError)"
  using assms(1-4) gather_streams_long [OF assms(5-8)] by simp

lemma run_phases_append:
  "run_phases ph (xs @ ys) = (case run_phases ph xs of None \<Rightarrow> None | Some ph' \<Rightarrow> run_phases ph' ys)"
  by (induction xs arbitrary: ph) (auto split: option.splits)

lemma gather_streams_phase:
  "run_phases Draining (fst (gather_streams gone b rs)) = Some Draining"
proof (induction rs arbitrary: b)
  case Nil
  then show ?case by simp
next
  case (Cons r rs)
  obtain acts b' raised where g: "gather_streams gone (spend b 1) rs = (acts, b', raised)"
    by (cases "gather_streams gone (spend b 1) rs") auto
  have "next_phase Draining (send_line r) = Some Draining"
    by (cases r) (simp add: send_line_def)
  then show ?case
    using Cons.IH [of "spend b 1"] g by simp
qed

lemma serve_phases: "run_phases Between_commands (fst (serve env b inbox)) \<noteq> None"
proof (induction env b inbox rule: serve.induct)
  case (1 env b)
  then show ?case by simp
next
  case (2 env b rest)
  then show ?case by simp
next
  case (3 env b data rest)
  show ?case
  proof (cases "json_loads env data")
    case (Inl e)
    then show ?thesis by simp
  next
    case msg: (Inr msg)
    show ?thesis
    proof (cases "py_get msg (ascii ''command'') (JStr [])")
      case (Inl e)
      then show ?thesis using msg by simp
    next
      case cmd: (Inr cmd)
      show ?thesis
      proof (cases "py_get msg (ascii ''cwd'') (JStr (PROJECT_DIR env))")
        case (Inl e)
        then show ?thesis using msg cmd by simp
      next
        case cwd: (Inr cwd)
        show ?thesis
        proof (cases "create_subprocess_shell env cmd cwd")
          case (Inl e)
          then show ?thesis using msg cmd cwd by simp
        next
          case proc: (Inr proc)
          obtain sent b1 raised
            where g: "gather_streams (send_closed env) b (reads proc) = (sent, b1, raised)"
            by (cases "gather_streams (send_closed env) b (reads proc)") auto
          have ph: "run_phases Draining sent = Some Draining"
            using gather_streams_phase [of "send_closed env" b "reads proc"] g by simp
          show ?thesis
          proof (cases "raised = None \<and> pipes_close proc \<and> exit_status proc \<noteq> None
                          \<and> affords b1 1")
            case False
            then consider e where "raised = Some e"
              | "raised = None" "\<not> pipes_close proc"
              | "raised = None" "pipes_close proc" "exit_status proc = None"
              | rc where "raised = None" "pipes_close proc" "exit_status proc = Some rc"
                  "\<not> affords b1 1"
              by auto
            then show ?thesis
              using msg cmd cwd proc g ph
              by cases (simp_all add: run_phases_append)
          next
            case True
            then obtain rc where rc: "exit_status proc = Some rc" by auto
            have none: "raised = None" using True by simp
            obtain later h where l: "serve env (spend b1 1) rest = (later, h)"
              by (cases "serve env (spend b1 1) rest") auto
            have "run_phases Between_commands later \<noteq> None"
              using 3 [OF msg cmd cwd proc g [symmetric] refl none _ rc] True l by simp
            then show ?thesis
              using msg cmd cwd proc g ph True rc l
              by (simp add: run_phases_append)
          qed
        qed
      qed
    qed
  qed
qed

lemma accepted_never_signals: "run_phases ph acts \<noteq> None \<Longrightarrow> Signal \<notin> set acts"
proof (induction acts arbitrary: ph)
  case Nil
  then show ?case by simp
next
  case (Cons a acts)
  then obtain ph' where s: "next_phase ph a = Some ph'" and r: "run_phases ph' acts \<noteq> None"
    by (auto split: option.splits)
  have "a \<noteq> Signal" using s by (cases ph) auto
  then show ?case using Cons.IH [OF r] by simp
qed

lemma serve_never_signals: "Signal \<notin> set (fst (serve env b inbox))"
  using accepted_never_signals [OF serve_phases] .

text \<open>
  C1 (as stated: every command that runs to normal completion gets exactly one
  \<open>Completion\<close> event). The statement fails: \<^verbatim>\<open>head -c 65537 /dev/zero\<close> runs to its end and
  exits with status 0, the peer stays connected, and yet no \<open>Completion\<close> is sent: its
  output is one line of 65537 bytes, \<^verbatim>\<open>readline\<close> raises \<open>ValueError\<close> on it, and the
  exception, for which the handler has no \<^verbatim>\<open>except\<close> clause, ends the session.
\<close>

theorem long_line_gets_no_completion:
  "pipes_close (demo_shell (ascii ''head -c 65537 /dev/zero''))
   \<and> exit_status (demo_shell (ascii ''head -c 65537 /dev/zero'')) = Some 0
   \<and> ws_shell demo_ws \<lparr>messages = [Text submit_long_line], patience = None\<rparr>
       = ([Accept, Spawn (JStr (ascii ''head -c 65537 /dev/zero'')) (JStr (ascii ''/srv/agent''))],
          Failed ValueError)"
  by (simp add: demo_ws_defs)

text \<open>
  C1 (amended): a command whose submission decodes and whose subprocess is created has,
  when every line of its output is within the reader's limit of 65536 bytes, both pipes
  reach end-of-file, the process exits with status \<open>rc\<close> and the peer takes every frame,
  these effects in this order: the spawn, one \<open>OutputLine\<close> frame for each line read, the
  end of the drain of both pipes, the wait for the exit status, and then exactly one
  \<open>Completion\<close> frame, carrying that status; every effect after it belongs to the messages
  that follow. When a line is over the limit (and the peer has taken the lines before
  it), the lines before it are forwarded and \<open>ValueError\<close> ends the loop: no \<open>Completion\<close>
  is sent. In either case the effects of the loop keep the order of \<open>run_phases\<close>, which
  admits no second \<open>Completion\<close> for a command and no \<open>Completion\<close> before the drain and the
  wait.
\<close>

theorem completion_after_drain_and_wait:
  assumes "json_loads env data = Inr msg"
    and "py_get msg (ascii ''command'') (JStr []) = Inr cmd"
    and "py_get msg (ascii ''cwd'') (JStr (PROJECT_DIR env)) = Inr cwd"
    and "create_subprocess_shell env cmd cwd = Inr proc"
  shows "(list_all (\<lambda>r. \<not> over_limit (snd r)) (reads proc) \<and> pipes_close proc
          \<and> exit_status proc = Some rc \<and> affords b (Suc (length (reads proc))) \<longrightarrow>
          fst (serve env b (Text data # rest)) =
            Spawn cmd cwd
            # map (\<lambda>(name, line).
                     Send (OutputLine name (rstrip_newline (utf8_decode_replace line))))
                (reads proc)
            @ [Drained, Wait rc, Send (Completion rc)]
            @ fst (serve env (spend b (Suc (length (reads proc)))) rest))
       \<and> (k < length (reads proc) \<and> list_all (\<lambda>r. \<not> over_limit (snd r)) (take k (reads proc))
          \<and> over_limit (snd (reads proc ! k)) \<and> affords b k \<longrightarrow>
          serve env b (Text data # rest) =
            (Spawn cmd cwd
             # map (\<lambda>(name, line).
                      Send (OutputLine name (rstrip_newline (utf8_decode_replace line))))
                 (take k (reads proc)),
             Raised ValueError))
       \<and> run_phases Between_commands (fst (serve env b (Text data # rest))) \<noteq> None"
proof (intro conjI impI)
  assume "list_all (\<lambda>r. \<not> over_limit (snd r)) (reads proc) \<and> pipes_close proc
          \<and> exit_status proc = Some rc \<and> affords b (Suc (length (reads proc)))"
  then show "fst (serve env b (Text data # rest)) =
            Spawn cmd cwd
            # map (\<lambda>(name, line).
                     Send (OutputLine name (rstrip_newline (utf8_decode_replace line))))
                (reads proc)
            @ [Drained, Wait rc, Send (Completion rc)]
            @ fst (serve env (spend b (Suc (length (reads proc)))) rest)"
    using serve_normal [OF assms, of rc b rest] by (simp add: send_line_eq)
next
  assume "k < length (reads proc) \<and> list_all (\<lambda>r. \<not> over_limit (snd r)) (take k (reads proc))
          \<and> over_limit (snd (reads proc ! k)) \<and> affords b k"
  then show "serve env b (Text data # rest) =
            (Spawn cmd cwd
             # map (\<lambda>(name, line).
                      Send (OutputLine name (rstrip_newline (utf8_decode_replace line))))
                 (take k (reads proc)),
             Raised ValueError)"
    using serve_long [OF assms, of k b rest] by (simp add: send_line_eq)
next
  show "run_phases Between_commands (fst (serve env b (Text data # rest))) \<noteq> None"
    by (rule serve_phases)
qed

theorem completion_after_drain_and_wait_witness:
  "json_loads demo_ws submit_echo = Inr (JObj [(ascii ''command'', JStr (ascii ''echo hello''))])
   \<and> create_subprocess_shell demo_ws (JStr (ascii ''echo hello'')) (JStr (ascii ''/srv/agent''))
       = Inr (demo_shell (ascii ''echo hello''))
   \<and> list_all (\<lambda>r. \<not> over_limit (snd r)) (reads (demo_shell (ascii ''echo hello'')))
   \<and> fst (serve demo_ws None [Text submit_echo, Disconnect]) =
       [Spawn (JStr (ascii ''echo hello'')) (JStr (ascii ''/srv/agent'')),
        Send (OutputLine Stdout (ascii ''hello'')),
        Drained, Wait 0, Send (Completion 0)]
   \<and> run_phases Between_commands (fst (serve demo_ws None [Text submit_echo, Disconnect])) \<noteq> None
   \<and> json_loads demo_ws submit_long_line
       = Inr (JObj [(ascii ''command'', JStr (ascii ''head -c 65537 /dev/zero''))])
   \<and> create_subprocess_shell demo_ws (JStr (ascii ''head -c 65537 /dev/zero''))
        (JStr (ascii ''/srv/agent''))
       = Inr (demo_shell (ascii ''head -c 65537 /dev/zero''))
   \<and> over_limit (snd (reads (demo_shell (ascii ''head -c 65537 /dev/zero'')) ! 0))
   \<and> serve demo_ws None [Text submit_long_line] =
       ([Spawn (JStr (ascii ''head -c 65537 /dev/zero'')) (JStr (ascii ''/srv/agent''))],
        Raised ValueError)"
proof -
  let ?long = "ascii ''head -c 65537 /dev/zero''"
  let ?lmsg = "JObj [(ascii ''command'', JStr ?long)]"
  have l1: "json_loads demo_ws submit_long_line = Inr ?lmsg"
    by (simp add: demo_ws_defs)
  have l2: "py_get ?lmsg (ascii ''command'') (JStr []) = Inr (JStr ?long)"
    by (simp add: demo_ws_defs)
  have l3: "py_get ?lmsg (ascii ''cwd'') (JStr (PROJECT_DIR demo_ws)) = Inr (JStr (ascii ''/srv/agent''))"
    by (simp add: demo_ws_defs)
  have l4: "create_subprocess_shell demo_ws (JStr ?long) (JStr (ascii ''/srv/agent''))
              = Inr (demo_shell ?long)"
    by (simp add: demo_ws_defs)
  have l5: "reads (demo_shell ?long) = [(Stdout, replicate 65537 0)]"
    by (simp add: demo_ws_defs)
  have l6: "over_limit (replicate 65537 0)"
    by (simp add: over_limit_def stream_limit_def)
  have 1: "json_loads demo_ws submit_echo = Inr (JObj [(ascii ''command'', JStr (ascii ''echo hello''))])"
    by (simp add: demo_ws_defs)
  have 2: "py_get (JObj [(ascii ''command'', JStr (ascii ''echo hello''))]) (ascii ''command'') (JStr [])
             = Inr (JStr (ascii ''echo hello''))"
    by (simp add: demo_ws_defs)
  have 3: "py_get (JObj [(ascii ''command'', JStr (ascii ''echo hello''))]) (ascii ''cwd'')
             (JStr (PROJECT_DIR demo_ws)) = Inr (JStr (ascii ''/srv/agent''))"
    by (simp add: demo_ws_defs)
  have 4: "create_subprocess_shell demo_ws (JStr (ascii ''echo hello'')) (JStr (ascii ''/srv/agent''))
             = Inr (demo_shell (ascii ''echo hello''))"
    by (simp add: demo_ws_defs)
  have 5: "pipes_close (demo_shell (ascii ''echo hello''))"
    and 6: "exit_status (demo_shell (ascii ''echo hello'')) = Some 0"
    and 7: "affords None (Suc (length (reads (demo_shell (ascii ''echo hello'')))))"
    and 8: "reads (demo_shell (ascii ''echo hello'')) = [(Stdout, ascii ''hello'' @ [0x0A])]"
    by (simp_all add: demo_ws_defs)
  have 9: "rstrip_newline (utf8_decode_replace (ascii ''hello'' @ [0x0A])) = ascii ''hello''"
    by (simp add: demo_ws_defs)
  have 10: "list_all (\<lambda>r. \<not> over_limit (snd r)) (reads (demo_shell (ascii ''echo hello'')))"
    by (simp add: demo_ws_defs)
  show ?thesis
    using completion_after_drain_and_wait [OF 1 2 3 4, of 0 None "[Disconnect]" 0]
      completion_after_drain_and_wait [OF l1 l2 l3 l4, of 0 None "[]" 0]
      1 4 5 6 7 8 9 10 l1 l4 l5 l6
    by simp
qed

text \<open>
  C3 (as stated: a submission that fails to decode leaves the session open, and the next
  submission is processed). The statement fails: the peer sends a text that is cut off
  in the middle and then a well-formed one; \<^verbatim>\<open>json.loads\<close> raises \<open>JSONDecodeError\<close> on the
  first, the only handler is the one for \<open>WebSocketDisconnect\<close>, and the session is over
  with nothing sent and the second submission never read.
\<close>

theorem malformed_submission_closes_session:
  "ws_shell demo_ws \<lparr>messages = [Text submit_malformed, Text submit_echo], patience = None\<rparr>
     = ([Accept], Failed JSONDecodeError)"
  by (simp add: demo_ws_defs)

text \<open>
  C3 (amended): a submission that fails to decode ends the session. The exception of
  \<^verbatim>\<open>json.loads\<close> leaves the loop and the handler; no frame is sent for the submission and
  no later submission is processed.
\<close>

theorem undecodable_submission_ends_session:
  assumes "json_loads env data = Inl e"
  shows "serve env b (Text data # rest) = ([], Raised e)
       \<and> ws_shell env \<lparr>messages = Text data # rest, patience = b\<rparr>
           = ([Accept], if e = WebSocketDisconnect then Closed else Failed e)"
  using assms by (simp add: ws_shell_def)

theorem undecodable_submission_ends_session_witness:
  "json_loads demo_ws submit_malformed = Inl JSONDecodeError
   \<and> serve demo_ws None [Text submit_malformed, Text submit_echo] = ([], Raised JSONDecodeError)
   \<and> ws_shell demo_ws \<lparr>messages = [Text submit_malformed, Text submit_echo], patience = None\<rparr>
       = ([Accept], Failed JSONDecodeError)"
proof -
  have h: "json_loads demo_ws submit_malformed = Inl JSONDecodeError"
    by (simp add: demo_ws_defs)
  show ?thesis
    using h undecodable_submission_ends_session [OF h, of None "[Text submit_echo]"] by simp
qed

text \<open>
  C4 (as stated: a spawn failure is reported to the peer by a completion-like error
  event). The statement fails: the submission names a working directory that does not
  exist, \<^verbatim>\<open>create_subprocess_shell\<close> raises \<open>FileNotFoundError\<close>, and the session is over
  without any frame sent.
\<close>

theorem spawn_failure_sends_nothing:
  "ws_shell demo_ws \<lparr>messages = [Text submit_bad_cwd, Text submit_echo], patience = None\<rparr>
     = ([Accept], Failed FileNotFoundError)"
  by (simp add: demo_ws_defs)

text \<open>
  C4 (amended): when the spawn fails, no subprocess is created and no frame is sent; the
  exception of \<^verbatim>\<open>create_subprocess_shell\<close> leaves the loop and the handler at once, which
  ends the session (nothing is waited for).
\<close>

theorem spawn_failure_ends_session:
  assumes "json_loads env data = Inr msg"
    and "py_get msg (ascii ''command'') (JStr []) = Inr cmd"
    and "py_get msg (ascii ''cwd'') (JStr (PROJECT_DIR env)) = Inr cwd"
    and "create_subprocess_shell env cmd cwd = Inl e"
  shows "serve env b (Text data # rest) = ([], Raised e)
       \<and> ws_shell env \<lparr>messages = Text data # rest, patience = b\<rparr>
           = ([Accept], if e = WebSocketDisconnect then Closed else Failed e)"
  using assms by (simp add: ws_shell_def)

theorem spawn_failure_ends_session_witness:
  "json_loads demo_ws submit_bad_cwd
     = Inr (JObj [(ascii ''command'', JStr (ascii ''true'')),
                  (ascii ''cwd'', JStr (ascii ''/nonexistent''))])
   \<and> create_subprocess_shell demo_ws (JStr (ascii ''true'')) (JStr (ascii ''/nonexistent''))
       = Inl FileNotFoundError
   \<and> serve demo_ws None [Text submit_bad_cwd, Text submit_echo] = ([], Raised FileNotFoundError)
   \<and> ws_shell demo_ws \<lparr>messages = [Text submit_bad_cwd, Text submit_echo], patience = None\<rparr>
       = ([Accept], Failed FileNotFoundError)"
proof -
  let ?msg = "JObj [(ascii ''command'', JStr (ascii ''true'')),
                    (ascii ''cwd'', JStr (ascii ''/nonexistent''))]"
  have 1: "json_loads demo_ws submit_bad_cwd = Inr ?msg"
    by (simp add: demo_ws_defs)
  have 2: "py_get ?msg (ascii ''command'') (JStr []) = Inr (JStr (ascii ''true''))"
    by (simp add: demo_ws_defs)
  have 3: "py_get ?msg (ascii ''cwd'') (JStr (PROJECT_DIR demo_ws))
             = Inr (JStr (ascii ''/nonexistent''))"
    by (simp add: demo_ws_defs)
  have 4: "create_subprocess_shell demo_ws (JStr (ascii ''true'')) (JStr (ascii ''/nonexistent''))
             = Inl FileNotFoundError"
    by (simp add: demo_ws_defs)
  show ?thesis
    using 1 4 spawn_failure_ends_session [OF 1 2 3 4, of None "[Text submit_echo]"] by simp
qed

text \<open>
  C5 (as stated: when the connection closes while the subprocess runs, the session
  signals the subprocess and reaps it). The statement fails: the peer submits
  \<^verbatim>\<open>tail -f /var/log/agent.log\<close>, a command that never exits by itself, and goes away
  after the first line; the second \<^verbatim>\<open>send_json\<close> raises, and the handler returns. Its
  effects end with the first line sent: no signal, no wait.
\<close>

theorem disconnect_neither_signals_nor_waits:
  "exit_status (demo_shell (ascii ''tail -f /var/log/agent.log'')) = None
   \<and> ws_shell demo_ws \<lparr>messages = [Text submit_tail], patience = Some 1\<rparr>
       = ([Accept,
           Spawn (JStr (ascii ''tail -f /var/log/agent.log'')) (JStr (ascii ''/srv/agent'')),
           Send (OutputLine Stdout (ascii ''boot''))],
          Closed)"
  by (simp add: demo_ws_defs)

text \<open>
  C5 (amended): when the peer goes away while lines of the subprocess are still being
  forwarded (the lines read so far being within the reader's limit), the handler ends
  at the first \<^verbatim>\<open>send_json\<close> that fails: it has spawned the subprocess and forwarded the
  lines the peer took, and it neither sends the subprocess a signal nor waits for it.
\<close>

theorem disconnect_sends_no_signal:
  assumes "json_loads env data = Inr msg"
    and "py_get msg (ascii ''command'') (JStr []) = Inr cmd"
    and "py_get msg (ascii ''cwd'') (JStr (PROJECT_DIR env)) = Inr cwd"
    and "create_subprocess_shell env cmd cwd = Inr proc"
    and "k < length (reads proc)"
    and "list_all (\<lambda>r. \<not> over_limit (snd r)) (take (Suc k) (reads proc))"
  shows "serve env (Some k) (Text data # rest) =
           (Spawn cmd cwd
            # map (\<lambda>(name, line). Send (OutputLine name (rstrip_newline (utf8_decode_replace line))))
                (take k (reads proc)),
            Raised (send_closed env))
       \<and> Signal \<notin> set (fst (serve env (Some k) (Text data # rest)))
       \<and> (\<forall>rc. Wait rc \<notin> set (fst (serve env (Some k) (Text data # rest))))"
proof -
  have s: "serve env (Some k) (Text data # rest) =
             (Spawn cmd cwd # map send_line (take k (reads proc)), Raised (send_closed env))"
    using serve_cut [OF assms] .
  have "Wait rc \<notin> set (map send_line (take k (reads proc)))" for rc
    by (auto simp: send_line_def)
  then show ?thesis
    using s serve_never_signals [of env "Some k" "Text data # rest"]
    by (simp add: send_line_eq)
qed

theorem disconnect_sends_no_signal_witness:
  "json_loads demo_ws submit_tail
     = Inr (JObj [(ascii ''command'', JStr (ascii ''tail -f /var/log/agent.log''))])
   \<and> create_subprocess_shell demo_ws (JStr (ascii ''tail -f /var/log/agent.log''))
        (JStr (ascii ''/srv/agent''))
       = Inr (demo_shell (ascii ''tail -f /var/log/agent.log''))
   \<and> 1 < length (reads (demo_shell (ascii ''tail -f /var/log/agent.log'')))
   \<and> list_all (\<lambda>r. \<not> over_limit (snd r))
        (take (Suc 1) (reads (demo_shell (ascii ''tail -f /var/log/agent.log''))))
   \<and> serve demo_ws (Some 1) [Text submit_tail] =
       ([Spawn (JStr (ascii ''tail -f /var/log/agent.log'')) (JStr (ascii ''/srv/agent'')),
         Send (OutputLine Stdout (ascii ''boot''))],
        Raised WebSocketDisconnect)
   \<and> Signal \<notin> set (fst (serve demo_ws (Some 1) [Text submit_tail]))
   \<and> (\<forall>rc. Wait rc \<notin> set (fst (serve demo_ws (Some 1) [Text submit_tail])))"
proof -
  let ?cmd = "ascii ''tail -f /var/log/agent.log''"
  let ?msg = "JObj [(ascii ''command'', JStr ?cmd)]"
  have 1: "json_loads demo_ws submit_tail = Inr ?msg"
    by (simp add: demo_ws_defs)
  have 2: "py_get ?msg (ascii ''command'') (JStr []) = Inr (JStr ?cmd)"
    by (simp add: demo_ws_defs)
  have 3: "py_get ?msg (ascii ''cwd'') (JStr (PROJECT_DIR demo_ws)) = Inr (JStr (ascii ''/srv/agent''))"
    by (simp add: demo_ws_defs)
  have 4: "create_subprocess_shell demo_ws (JStr ?cmd) (JStr (ascii ''/srv/agent''))
             = Inr (demo_shell ?cmd)"
    by (simp add: demo_ws_defs)
  have 5: "1 < length (reads (demo_shell ?cmd))"
    by (simp add: demo_ws_defs)
  have 6: "list_all (\<lambda>r. \<not> over_limit (snd r)) (take (Suc 1) (reads (demo_shell ?cmd)))"
    by (simp add: demo_ws_defs)
  have 7: "take 1 (reads (demo_shell ?cmd)) = [(Stdout, ascii ''boot'' @ [0x0A])]"
    by (simp add: demo_ws_defs)
  have 8: "rstrip_newline (utf8_decode_replace (ascii ''boot'' @ [0x0A])) = ascii ''boot''"
    by (simp add: demo_ws_defs)
  have 9: "send_closed demo_ws = WebSocketDisconnect"
    by (simp add: demo_ws_defs)
  show ?thesis
    using 1 4 5 6 disconnect_sends_no_signal [OF 1 2 3 4 5 6, of "[]"] 7 8 9 by simp
qed

text \<open>
  C10 (as stated: every submission that decodes to an object without a \<^verbatim>\<open>command\<close> field
  gets a \<open>Completion\<close> event with exit code 0). The statement fails: the submission
  \<^verbatim>\<open>{"cwd": "/nonexistent"}\<close> is such an object; the empty command is substituted, the
  spawn in the missing directory raises \<open>FileNotFoundError\<close>, and the session ends without
  a \<open>Completion\<close> event.
\<close>

theorem missing_command_bad_cwd_gets_no_completion:
  "json_loads demo_ws submit_only_bad_cwd = Inr (JObj [(ascii ''cwd'', JStr (ascii ''/nonexistent''))])
   \<and> map_of [(ascii ''cwd'', JStr (ascii ''/nonexistent''))] (ascii ''command'') = None
   \<and> ws_shell demo_ws \<lparr>messages = [Text submit_only_bad_cwd], patience = None\<rparr>
       = ([Accept], Failed FileNotFoundError)"
  by (simp add: demo_ws_defs)

text \<open>
  C10 (amended): a submission that decodes to an object without a \<^verbatim>\<open>command\<close> key is not
  rejected as malformed: the command is the empty string, and a shell is asked for with
  it, in the submission's working directory or else the project directory. When that
  spawn fails, its exception ends the session and no \<open>Completion\<close> is sent. When it
  succeeds, the shell's output lines are within the reader's limit, the shell exits and the
  peer takes every frame, the session sends the output lines and then a \<open>Completion\<close>
  frame with the shell's exit status (which is 0 for a shell on the empty command).
\<close>

theorem missing_command_runs_empty_command:
  assumes "json_loads env data = Inr (JObj items)"
    and "map_of items (ascii ''command'') = None"
    and "py_get (JObj items) (ascii ''cwd'') (JStr (PROJECT_DIR env)) = Inr cwd"
  shows "(create_subprocess_shell env (JStr []) cwd = Inl e \<longrightarrow>
            serve env b (Text data # rest) = ([], Raised e))
       \<and> (create_subprocess_shell env (JStr []) cwd = Inr proc
          \<and> list_all (\<lambda>r. \<not> over_limit (snd r)) (reads proc) \<and> pipes_close proc
          \<and> exit_status proc = Some rc \<and> affords b (Suc (length (reads proc))) \<longrightarrow>
            fst (serve env b (Text data # rest)) =
              Spawn (JStr []) cwd
              # map (\<lambda>(name, line).
                       Send (OutputLine name (rstrip_newline (utf8_decode_replace line))))
                  (reads proc)
              @ [Drained, Wait rc, Send (Completion rc)]
              @ fst (serve env (spend b (Suc (length (reads proc)))) rest))"
proof (intro conjI impI)
  have c: "py_get (JObj items) (ascii ''command'') (JStr []) = Inr (JStr [])"
    using assms(2) by (simp add: py_get_def)
  {
    assume "create_subprocess_shell env (JStr []) cwd = Inl e"
    then show "serve env b (Text data # rest) = ([], Raised e)"
      using assms(1,3) c by simp
  }
  {
    assume a: "create_subprocess_shell env (JStr []) cwd = Inr proc
          \<and> list_all (\<lambda>r. \<not> over_limit (snd r)) (reads proc) \<and> pipes_close proc
          \<and> exit_status proc = Some rc \<and> affords b (Suc (length (reads proc)))"
    then show "fst (serve env b (Text data # rest)) =
              Spawn (JStr []) cwd
              # map (\<lambda>(name, line).
                       Send (OutputLine name (rstrip_newline (utf8_decode_replace line))))
                  (reads proc)
              @ [Drained, Wait rc, Send (Completion rc)]
              @ fst (serve env (spend b (Suc (length (reads proc)))) rest)"
      using serve_normal [OF assms(1) c assms(3), of proc rc b rest] by (simp add: send_line_eq)
  }
qed

theorem missing_command_runs_empty_command_witness:
  "json_loads demo_ws submit_no_command = Inr (JObj [])
   \<and> map_of [] (ascii ''command'') = (None :: json option)
   \<and> create_subprocess_shell demo_ws (JStr []) (JStr (ascii ''/srv/agent'')) = Inr (demo_shell [])
   \<and> exit_status (demo_shell []) = Some 0
   \<and> fst (serve demo_ws None [Text submit_no_command]) =
       [Spawn (JStr []) (JStr (ascii ''/srv/agent'')), Drained, Wait 0, Send (Completion 0)]
   \<and> json_loads demo_ws submit_only_bad_cwd
       = Inr (JObj [(ascii ''cwd'', JStr (ascii ''/nonexistent''))])
   \<and> create_subprocess_shell demo_ws (JStr []) (JStr (ascii ''/nonexistent''))
       = Inl FileNotFoundError
   \<and> serve demo_ws None [Text submit_only_bad_cwd] = ([], Raised FileNotFoundError)"
proof -
  have 1: "json_loads demo_ws submit_no_command = Inr (JObj [])"
    by (simp add: demo_ws_defs)
  have 2: "map_of [] (ascii ''command'') = (None :: json option)"
    by simp
  have 3: "py_get (JObj []) (ascii ''cwd'') (JStr (PROJECT_DIR demo_ws)) = Inr (JStr (ascii ''/srv/agent''))"
    by (simp add: demo_ws_defs)
  have 4: "create_subprocess_shell demo_ws (JStr []) (JStr (ascii ''/srv/agent'')) = Inr (demo_shell [])"
    by (simp add: demo_ws_defs)
  have 5: "pipes_close (demo_shell [])" and 6: "exit_status (demo_shell []) = Some 0"
    and 7: "affords None (Suc (length (reads (demo_shell []))))"
    and 8: "reads (demo_shell []) = []"
    by (simp_all add: demo_ws_defs)
  let ?items = "[(ascii ''cwd'', JStr (ascii ''/nonexistent''))]"
  have b1: "json_loads demo_ws submit_only_bad_cwd = Inr (JObj ?items)"
    by (simp add: demo_ws_defs)
  have b2: "map_of ?items (ascii ''command'') = None"
    by (simp add: ascii_def)
  have b3: "py_get (JObj ?items) (ascii ''cwd'') (JStr (PROJECT_DIR demo_ws))
              = Inr (JStr (ascii ''/nonexistent''))"
    by (simp add: demo_ws_defs)
  have b4: "create_subprocess_shell demo_ws (JStr []) (JStr (ascii ''/nonexistent''))
              = Inl FileNotFoundError"
    by (simp add: demo_ws_defs)
  show ?thesis
    using 1 4 5 6 7 8 b1 b4
      missing_command_runs_empty_command [OF 1 2 3, of FileNotFoundError None "[]" "demo_shell []" 0]
      missing_command_runs_empty_command [OF b1 b2 b3, of FileNotFoundError None "[]" "demo_shell []" 0]
    by simp
qed

section \<open>Properties of file access\<close>

lemmas demo_file_defs =
  write_file_def read_file_def write_text_def written_def open_w_def os_mkdir_def
  exists_path_def is_file_def is_dir_def readable_file_def parent_def demo_locate_def
  root_only_def small_host_def
  splitlines_def is_line_boundary_def ascii_def utf8_encode_char_def is_continuation_def
  Let_def

lemma write_text_stores:
  "write_text fs p data = (Inr n, fs') \<Longrightarrow>
     \<exists>b. utf8_encode data = Some b
        \<and> (fs' p = Some (File b) \<or> fs' p = Some (Unreadable b) \<or> fs' p = Some (Special None))"
  by (auto simp: write_text_def open_w_def written_def
      split: if_splits option.splits node.splits)

lemma write_file_unfold:
  assumes "fst (write_file locate fs P C) = Inr resp"
  obtains u fs1 n where "mkdir fs (parent (locate P)) True True = (Inr u, fs1)"
    and "write_text fs1 (locate P) C = (Inr n, snd (write_file locate fs P C))"
    and "resp = \<lparr>path = locate P, bytes_written = length C\<rparr>"
proof -
  obtain r1 fs1 where m: "mkdir fs (parent (locate P)) True True = (r1, fs1)"
    by (cases "mkdir fs (parent (locate P)) True True") auto
  obtain r2 fs2 where w: "write_text fs1 (locate P) C = (r2, fs2)"
    by (cases "write_text fs1 (locate P) C") auto
  from assms m w obtain u n where "r1 = Inr u" "r2 = Inr n"
    "snd (write_file locate fs P C) = fs2" "resp = \<lparr>path = locate P, bytes_written = length C\<rparr>"
    by (auto simp: write_file_def Let_def split: sum.splits)
  then show ?thesis using that m w by simp
qed

lemma write_file_stores:
  assumes "fst (write_file locate fs P C) = Inr resp"
  shows "\<exists>b. utf8_encode C = Some b
           \<and> (snd (write_file locate fs P C) (locate P) = Some (File b)
              \<or> snd (write_file locate fs P C) (locate P) = Some (Unreadable b)
              \<or> snd (write_file locate fs P C) (locate P) = Some (Special None))"
proof -
  obtain u fs1 n where
    w: "write_text fs1 (locate P) C = (Inr n, snd (write_file locate fs P C))"
    using write_file_unfold [OF assms] by blast
  show ?thesis using write_text_stores [OF w] .
qed

lemma write_file_stores_readable:
  assumes "fst (write_file locate fs P C) = Inr resp"
    and "readable_file (snd (write_file locate fs P C)) (locate P)"
  shows "\<exists>b. utf8_encode C = Some b \<and> snd (write_file locate fs P C) (locate P) = Some (File b)"
  using write_file_stores [OF assms(1)] assms(2)
  by (auto simp: readable_file_def)




text \<open>
  C9 (the write returns the number of bytes written). On the content that is the one
  character \<open>U+00E9\<close> (e with an acute accent), the file receives the two bytes \<open>C3 A9\<close>, and the response says
  \<open>bytes_written = 1\<close>: the route returns \<^verbatim>\<open>len(req.content)\<close>, the number of characters.
\<close>

theorem write_file_counts_characters:
  "fst (write_file demo_locate root_only (ascii ''/tmp/e.txt'') [0xE9])
     = Inr \<lparr>path = [ascii ''tmp'', ascii ''e.txt''], bytes_written = 1\<rparr>
   \<and> snd (write_file demo_locate root_only (ascii ''/tmp/e.txt'') [0xE9])
        [ascii ''tmp'', ascii ''e.txt'']
     = Some (File [0xC3, 0xA9])"
  by (simp add: demo_file_defs mkdir.simps)


section \<open>Further properties\<close>

lemma os_mkdir_keeps: "os_mkdir fs p = (r, fs') \<Longrightarrow> fs q = Some n \<Longrightarrow> fs' q = Some n"
  by (auto simp: os_mkdir_def exists_path_def split: if_splits option.splits node.splits)

lemma mkdir_keeps:
  "mkdir fs p parents exist_ok = (r, fs') \<Longrightarrow> fs q = Some n \<Longrightarrow> fs' q = Some n"
proof (induction fs p parents exist_ok arbitrary: r fs' rule: mkdir.induct)
  case (1 fs p parents exist_ok)
  obtain r0 fs0 where o: "os_mkdir fs p = (r0, fs0)"
    by (cases "os_mkdir fs p") auto
  have k0: "fs0 q = Some n" using os_mkdir_keeps [OF o "1.prems"(2)] .
  show ?case
  proof (cases r0)
    case (Inr u)
    then show ?thesis using "1.prems"(1) o k0 by (simp add: mkdir.simps)
  next
    case (Inl e)
    show ?thesis
    proof (cases "e = FileNotFoundError \<and> parents \<and> parent p \<noteq> p")
      case False
      then show ?thesis using "1.prems"(1) o k0 Inl by (auto simp: mkdir.simps split: if_splits)
    next
      case True
      obtain r1 fs1 where m1: "mkdir fs0 (parent p) True True = (r1, fs1)"
        by (cases "mkdir fs0 (parent p) True True") auto
      have k1: "fs1 q = Some n"
        using "1.IH"(1) [OF o [symmetric] Inl _ _ m1 k0] True by simp
      show ?thesis
      proof (cases r1)
        case e1: (Inl e1)
        then show ?thesis using "1.prems"(1) o Inl True m1 k1 by (simp add: mkdir.simps)
      next
        case u1: (Inr u1)
        have "mkdir fs1 p False exist_ok = (r, fs')"
          using "1.prems"(1) o Inl True m1 u1 by (simp add: mkdir.simps)
        then show ?thesis
          using "1.IH"(2) [OF o [symmetric] Inl _ _ m1 [symmetric] u1 _ k1] True by simp
      qed
    qed
  qed
qed

lemma write_text_keeps:
  "write_text fs p data = (r, fs') \<Longrightarrow> q \<noteq> p \<Longrightarrow> fs' q = fs q"
  by (auto simp: write_text_def open_w_def split: if_splits option.splits node.splits)

lemma write_text_parent:
  "write_text fs p data = (Inr n, fs') \<Longrightarrow> is_dir fs' (parent p)"
  by (auto simp: write_text_def open_w_def is_dir_def split: if_splits option.splits node.splits)

lemma utf8_encode_ascii: "list_all (\<lambda>c. c < 0x80) s \<Longrightarrow> utf8_encode s = Some s"
  by (induction s) (auto simp: utf8_encode_char_def)

text \<open>
  X1: when the write succeeds, the parent of the path is a directory afterwards (missing
  parent directories have been created), the response names the path, and the node at
  the path is a regular file that holds the UTF-8 encoding of the content, whatever it
  held before, or else it is a special file that took the bytes and stayed as it was.
\<close>

theorem write_file_creates_parents_and_stores:
  assumes "fst (write_file locate fs P C) = Inr resp"
  shows "is_dir (snd (write_file locate fs P C)) (parent (locate P))
       \<and> (\<exists>b. utf8_encode C = Some b
              \<and> (snd (write_file locate fs P C) (locate P) = Some (File b)
                 \<or> snd (write_file locate fs P C) (locate P) = Some (Unreadable b)
                 \<or> snd (write_file locate fs P C) (locate P) = Some (Special None)))
       \<and> path resp = locate P"
proof -
  obtain u fs1 n where m: "mkdir fs (parent (locate P)) True True = (Inr u, fs1)"
    and w: "write_text fs1 (locate P) C = (Inr n, snd (write_file locate fs P C))"
    and r: "resp = \<lparr>path = locate P, bytes_written = length C\<rparr>"
    using write_file_unfold [OF assms] by blast
  show ?thesis
    using write_text_parent [OF w] write_text_stores [OF w] r by simp
qed

theorem write_file_creates_parents_and_stores_witness:
  "fst (write_file demo_locate root_only (ascii ''/tmp/notes/a.txt'') (ascii ''hi''))
     = Inr \<lparr>path = [ascii ''tmp'', ascii ''notes'', ascii ''a.txt''], bytes_written = 2\<rparr>
   \<and> is_dir (snd (write_file demo_locate root_only (ascii ''/tmp/notes/a.txt'') (ascii ''hi'')))
        [ascii ''tmp'', ascii ''notes'']
   \<and> snd (write_file demo_locate root_only (ascii ''/tmp/notes/a.txt'') (ascii ''hi''))
        [ascii ''tmp'', ascii ''notes'', ascii ''a.txt''] = Some (File (ascii ''hi''))"
proof -
  have h: "fst (write_file demo_locate root_only (ascii ''/tmp/notes/a.txt'') (ascii ''hi''))
     = Inr \<lparr>path = [ascii ''tmp'', ascii ''notes'', ascii ''a.txt''], bytes_written = 2\<rparr>"
    by (simp add: demo_file_defs mkdir.simps)
  have l: "demo_locate (ascii ''/tmp/notes/a.txt'') = [ascii ''tmp'', ascii ''notes'', ascii ''a.txt'']"
    by (simp add: demo_file_defs)
  have s: "snd (write_file demo_locate root_only (ascii ''/tmp/notes/a.txt'') (ascii ''hi''))
        [ascii ''tmp'', ascii ''notes'', ascii ''a.txt''] = Some (File (ascii ''hi''))"
    by (simp add: demo_file_defs mkdir.simps)
  show ?thesis
    using h s write_file_creates_parents_and_stores [OF h] l by (simp add: parent_def)
qed

text \<open>
  X2: the write, successful or not, leaves every existing node other than the one at the
  path as it was: directories are only added, and no other file is touched.
\<close>

theorem write_file_keeps_other_nodes:
  assumes "fs q = Some n" and "q \<noteq> locate P"
  shows "snd (write_file locate fs P C) q = Some n"
proof -
  obtain r1 fs1 where m: "mkdir fs (parent (locate P)) True True = (r1, fs1)"
    by (cases "mkdir fs (parent (locate P)) True True") auto
  obtain r2 fs2 where w: "write_text fs1 (locate P) C = (r2, fs2)"
    by (cases "write_text fs1 (locate P) C") auto
  have k1: "fs1 q = Some n" using mkdir_keeps [OF m assms(1)] .
  have k2: "fs2 q = Some n" using write_text_keeps [OF w assms(2)] k1 by simp
  show ?thesis
    using m w k1 k2 by (cases r1; cases r2) (simp_all add: write_file_def Let_def)
qed

theorem write_file_keeps_other_nodes_witness:
  "root_only [] = Some Dir \<and> [] \<noteq> demo_locate (ascii ''/tmp/e.txt'')
   \<and> snd (write_file demo_locate root_only (ascii ''/tmp/e.txt'') [0xE9]) [] = Some Dir"
proof -
  have 1: "root_only [] = Some Dir" by (simp add: root_only_def)
  have 2: "[] \<noteq> demo_locate (ascii ''/tmp/e.txt'')" by (simp add: demo_file_defs)
  show ?thesis
    using 1 2
      write_file_keeps_other_nodes [of root_only "[]" Dir demo_locate "ascii ''/tmp/e.txt''" "[0xE9]",
        OF 1 2]
    by simp
qed

text \<open>
  X3: for a content of ASCII characters only, when the write succeeds and the path
  afterwards names a regular file the process may read, \<open>bytes_written\<close> is the number of
  bytes stored in the file.
\<close>

theorem write_file_ascii_count:
  assumes "fst (write_file locate fs P C) = Inr resp" and "list_all (\<lambda>c. c < 0x80) C"
    and "readable_file (snd (write_file locate fs P C)) (locate P)"
  shows "\<exists>b. snd (write_file locate fs P C) (locate P) = Some (File b)
            \<and> bytes_written resp = length b"
proof -
  obtain u fs1 n where w: "write_text fs1 (locate P) C = (Inr n, snd (write_file locate fs P C))"
    and r: "resp = \<lparr>path = locate P, bytes_written = length C\<rparr>"
    using write_file_unfold [OF assms(1)] by blast
  show ?thesis
    using write_file_stores_readable [OF assms(1,3)] utf8_encode_ascii [OF assms(2)] r by auto
qed

theorem write_file_ascii_count_witness:
  "fst (write_file demo_locate root_only (ascii ''/tmp/notes/a.txt'') (ascii ''hi''))
     = Inr \<lparr>path = [ascii ''tmp'', ascii ''notes'', ascii ''a.txt''], bytes_written = 2\<rparr>
   \<and> list_all (\<lambda>c. c < 0x80) (ascii ''hi'')
   \<and> readable_file (snd (write_file demo_locate root_only (ascii ''/tmp/notes/a.txt'') (ascii ''hi'')))
        (demo_locate (ascii ''/tmp/notes/a.txt''))
   \<and> (\<exists>b. snd (write_file demo_locate root_only (ascii ''/tmp/notes/a.txt'') (ascii ''hi''))
              (demo_locate (ascii ''/tmp/notes/a.txt'')) = Some (File b)
          \<and> 2 = length b)"
proof -
  have h: "fst (write_file demo_locate root_only (ascii ''/tmp/notes/a.txt'') (ascii ''hi''))
     = Inr \<lparr>path = [ascii ''tmp'', ascii ''notes'', ascii ''a.txt''], bytes_written = 2\<rparr>"
    by (simp add: demo_file_defs mkdir.simps)
  have a: "list_all (\<lambda>c. c < 0x80) (ascii ''hi'')"
    by (simp add: ascii_def)
  have f: "readable_file (snd (write_file demo_locate root_only (ascii ''/tmp/notes/a.txt'') (ascii ''hi'')))
        (demo_locate (ascii ''/tmp/notes/a.txt''))"
    by (simp add: demo_file_defs mkdir.simps)
  show ?thesis
    using h a f write_file_ascii_count [OF h a f] by simp
qed

text \<open>
  X4: reading a path that does not exist raises the HTTP error 404, and reading a
  directory or a special file raises the HTTP error 400, whatever offset and limit are.
\<close>

theorem read_file_missing_or_directory:
  "(fs (locate P) = None \<longrightarrow> read_file locate fs P offset limit = Inl (HTTPException 404))
 \<and> (fs (locate P) = Some Dir \<longrightarrow> read_file locate fs P offset limit = Inl (HTTPException 400))
 \<and> (fs (locate P) = Some (Special r) \<longrightarrow>
      read_file locate fs P offset limit = Inl (HTTPException 400))"
  by (simp add: read_file_def Let_def exists_path_def is_file_def)

theorem read_file_missing_or_directory_witness:
  "root_only (demo_locate (ascii ''/tmp/e.txt'')) = None
   \<and> read_file demo_locate root_only (ascii ''/tmp/e.txt'') 0 0 = Inl (HTTPException 404)
   \<and> root_only (demo_locate (ascii ''/'')) = Some Dir
   \<and> read_file demo_locate root_only (ascii ''/'') 0 0 = Inl (HTTPException 400)
   \<and> small_host (demo_locate (ascii ''/dev/null'')) = Some (Special None)
   \<and> read_file demo_locate small_host (ascii ''/dev/null'') 0 0 = Inl (HTTPException 400)"
proof -
  have 1: "root_only (demo_locate (ascii ''/tmp/e.txt'')) = None"
    and 2: "root_only (demo_locate (ascii ''/'')) = Some Dir"
    and 3: "small_host (demo_locate (ascii ''/dev/null'')) = Some (Special None)"
    by (simp_all add: demo_file_defs)
  show ?thesis
    using 1 2 3
      read_file_missing_or_directory [where fs = root_only and locate = demo_locate
        and P = "ascii ''/tmp/e.txt''" and offset = 0 and limit = 0 and r = None]
      read_file_missing_or_directory [where fs = root_only and locate = demo_locate
        and P = "ascii ''/''" and offset = 0 and limit = 0 and r = None]
      read_file_missing_or_directory [where fs = small_host and locate = demo_locate
        and P = "ascii ''/dev/null''" and offset = 0 and limit = 0 and r = None]
    by simp
qed

text \<open>
  X5: with offset 0 and limit 0 the read of a regular file that the process may read
  returns the whole text of the file, that is its bytes decoded with replacement and
  with newlines translated (joining the lines kept with their ends gives the text back),
  and the number of its lines.
\<close>

theorem read_file_whole:
  assumes "fs (locate P) = Some (File b)"
  shows "read_file locate fs P 0 0 =
           Inr \<lparr>path = locate P,
                content = universal_newlines (utf8_decode_replace b),
                total_lines = length (splitlines False (universal_newlines (utf8_decode_replace b)))\<rparr>"
  using assms
  by (simp add: read_file_def Let_def exists_path_def is_file_def splitlines_def
        concat_splitlines_from)

theorem read_file_whole_witness:
  "(root_only([ascii ''motd''] \<mapsto> File [0x68, 0x69, 0x0D, 0x0A, 0xFF])) (demo_locate (ascii ''/motd''))
     = Some (File [0x68, 0x69, 0x0D, 0x0A, 0xFF])
   \<and> read_file demo_locate (root_only([ascii ''motd''] \<mapsto> File [0x68, 0x69, 0x0D, 0x0A, 0xFF]))
        (ascii ''/motd'') 0 0
     = Inr \<lparr>path = [ascii ''motd''], content = [0x68, 0x69, 0x0A, 0xFFFD], total_lines = 2\<rparr>"
proof -
  have 1: "(root_only([ascii ''motd''] \<mapsto> File [0x68, 0x69, 0x0D, 0x0A, 0xFF]))
             (demo_locate (ascii ''/motd'')) = Some (File [0x68, 0x69, 0x0D, 0x0A, 0xFF])"
    by (simp add: demo_file_defs)
  have 2: "demo_locate (ascii ''/motd'') = [ascii ''motd'']"
    by (simp add: demo_file_defs)
  have 3: "universal_newlines (utf8_decode_replace [0x68, 0x69, 0x0D, 0x0A, 0xFF])
             = [0x68, 0x69, 0x0A, 0xFFFD]"
    by simp
  have 4: "length (splitlines False [0x68, 0x69, 0x0A, 0xFFFD]) = 2"
    by (simp add: demo_file_defs)
  show ?thesis
    using 1 2 3 4
      read_file_whole [of "root_only([ascii ''motd''] \<mapsto> File [0x68, 0x69, 0x0D, 0x0A, 0xFF])"
        demo_locate "ascii ''/motd''" "[0x68, 0x69, 0x0D, 0x0A, 0xFF]", OF 1]
    by simp
qed

text \<open>
  X6: in every session, whatever the peer and the host do, the effects after the accept
  keep the order of \<open>run_phases\<close>: within a command, output lines only before the drain
  ends, then the wait, then at most one \<open>Completion\<close>, with the status waited for; and no
  signal is ever sent to a subprocess.
\<close>

theorem session_effects_in_order:
  "\<exists>acts. fst (ws_shell env c) = Accept # acts
        \<and> run_phases Between_commands acts \<noteq> None
        \<and> Signal \<notin> set acts"
proof -
  obtain acts h where s: "serve env (patience c) (messages c) = (acts, h)"
    by (cases "serve env (patience c) (messages c)") auto
  have "run_phases Between_commands acts \<noteq> None" "Signal \<notin> set acts"
    using serve_phases [of env "patience c" "messages c"]
      serve_never_signals [of env "patience c" "messages c"] s by simp_all
  then show ?thesis
    using s by (cases h) (simp_all add: ws_shell_def)
qed

text \<open>
  X7: a submission that decodes to a JSON value other than an object ends the session:
  \<^verbatim>\<open>msg.get\<close> raises \<open>AttributeError\<close>, which no handler catches, and nothing is sent.
\<close>

theorem non_object_submission_ends_session:
  assumes "json_loads env data = Inr msg" and "\<forall>items. msg \<noteq> JObj items"
  shows "ws_shell env \<lparr>messages = Text data # rest, patience = b\<rparr> = ([Accept], Failed AttributeError)"
proof -
  have "py_get msg (ascii ''command'') (JStr []) = Inl AttributeError"
    using assms(2) by (cases msg) (simp_all add: py_get_def)
  then show ?thesis
    using assms(1) by (simp add: ws_shell_def)
qed

theorem non_object_submission_ends_session_witness:
  "json_loads demo_ws submit_list = Inr (JArr [JInt 1, JInt 2])
   \<and> (\<forall>items. JArr [JInt 1, JInt 2] \<noteq> JObj items)
   \<and> ws_shell demo_ws \<lparr>messages = [Text submit_list, Text submit_echo], patience = None\<rparr>
       = ([Accept], Failed AttributeError)"
proof -
  have 1: "json_loads demo_ws submit_list = Inr (JArr [JInt 1, JInt 2])"
    by (simp add: demo_ws_defs)
  have 2: "\<forall>items. JArr [JInt 1, JInt 2] \<noteq> JObj items"
    by simp
  show ?thesis
    using 1 2 non_object_submission_ends_session [OF 1 2, of "[Text submit_echo]" None] by simp
qed

text \<open>
  X8: without a working directory, and also with the empty string as working directory,
  \<^verbatim>\<open>run_cmd\<close> runs the command in the project directory.
\<close>

theorem run_cmd_default_cwd:
  "run_cmd env start finish cmd None timeout
     = run_cmd env start finish cmd (Some (PROJECT_DIR env)) timeout
 \<and> run_cmd env start finish cmd (Some []) timeout
     = run_cmd env start finish cmd (Some (PROJECT_DIR env)) timeout"
  by (simp add: run_cmd_def py_or_def)

end
